theory Spec2Isabelle
  imports Main "HOL-Library.AList" "HOL-Library.Multiset" "HOL-Library.Sublist"
begin

section \<open>JavaScript values\<close>

text \<open>
  The program is a browser script (\<^verbatim>\<open>script.js\<close>). Its word records come from form
  input, from \<^verbatim>\<open>JSON.parse\<close> of the stored state and from imported backup files, so
  a field can hold any JSON value. Numbers are modelled as integers (the counters of
  the program never leave the integers), objects other than arrays are not modelled.
  A string is the list of the bytes of its UTF-8 form, so that an ASCII string is the
  list of its characters.
\<close>

datatype jsval =
    JUndefined
  | JNull
  | JBool bool
  | JNum int
  | JStr string
  | JArr "jsval list"

datatype error = TypeError

text \<open>JavaScript truthiness, as used by \<^verbatim>\<open>||\<close>, \<^verbatim>\<open>!\<close> and \<^verbatim>\<open>filter\<close>.\<close>

fun truthy :: "jsval \<Rightarrow> bool" where
  "truthy JUndefined = False"
| "truthy JNull = False"
| "truthy (JBool b) = b"
| "truthy (JNum n) = (n \<noteq> 0)"
| "truthy (JStr s) = (s \<noteq> [])"
| "truthy (JArr xs) = True"

text \<open>\<^verbatim>\<open>a || b\<close>\<close>

definition js_or :: "jsval \<Rightarrow> jsval \<Rightarrow> jsval" where
  "js_or a b = (if truthy a then a else b)"

text \<open>
  \<^verbatim>\<open>String.prototype.toLowerCase\<close> and \<^verbatim>\<open>String.prototype.trim\<close> belong to the
  JavaScript engine, not to the program. On a string of ASCII characters they are
  what is written out below. On every other string they follow the Unicode tables of
  the engine (case mappings; white space such as U+00A0, U+FEFF and U+2028), which are
  parameters of the model: an \<open>engine\<close> gives the two methods on the strings that are
  not ASCII, and everything proved holds for every engine.
\<close>

record engine =
  toLowerCaseUnicode :: "string \<Rightarrow> string"
  trimUnicode :: "string \<Rightarrow> string"

definition isASCII :: "char \<Rightarrow> bool" where
  "isASCII c = ((of_char c :: nat) < 128)"

text \<open>
  An upper-case ASCII letter (codes 65 to 90) becomes the lower-case one, 32 above
  it, which is the same byte with bit 5 set; every other ASCII character is unchanged.
\<close>

fun toLowerChar :: "char \<Rightarrow> char" where
  "toLowerChar (Char b0 b1 b2 b3 b4 b5 b6 b7) =
     (let n = (of_char (Char b0 b1 b2 b3 b4 b5 b6 b7) :: nat)
      in if 65 \<le> n \<and> n \<le> 90 then Char b0 b1 b2 b3 b4 True b6 b7
         else Char b0 b1 b2 b3 b4 b5 b6 b7)"

text \<open>\<^verbatim>\<open>String.prototype.toLowerCase\<close>\<close>

definition toLowerCase :: "engine \<Rightarrow> string \<Rightarrow> string" where
  "toLowerCase g s = (if list_all isASCII s then map toLowerChar s else toLowerCaseUnicode g s)"

text \<open>The white space and line terminators of ASCII: tab, LF, VT, FF, CR and space.\<close>

definition isSpace :: "char \<Rightarrow> bool" where
  "isSpace c = (let n = (of_char c :: nat) in n = 32 \<or> (9 \<le> n \<and> n \<le> 13))"

text \<open>\<^verbatim>\<open>String.prototype.trim\<close>\<close>

definition trim :: "engine \<Rightarrow> string \<Rightarrow> string" where
  "trim g s =
     (if list_all isASCII s then rev (dropWhile isSpace (rev (dropWhile isSpace s)))
      else trimUnicode g s)"

text \<open>
  \<^verbatim>\<open>v.toLowerCase()\<close> on a field \<open>v\<close>: only a string has the method; on
  \<^verbatim>\<open>undefined\<close>, \<^verbatim>\<open>null\<close>, a number, a boolean or an array the call raises a
  \<^verbatim>\<open>TypeError\<close>.
\<close>

fun js_toLowerCase :: "engine \<Rightarrow> jsval \<Rightarrow> error + string" where
  "js_toLowerCase g (JStr s) = Inr (toLowerCase g s)"
| "js_toLowerCase g v = Inl TypeError"

text \<open>\<^verbatim>\<open>v.trim()\<close>\<close>

fun js_trim :: "engine \<Rightarrow> jsval \<Rightarrow> error + jsval" where
  "js_trim g (JStr s) = Inr (JStr (trim g s))"
| "js_trim g v = Inl TypeError"

text \<open>\<^verbatim>\<open>v?.trim() || ''\<close>: \<^verbatim>\<open>undefined\<close> and \<^verbatim>\<open>null\<close> short-circuit to the default.\<close>

fun js_trim_or_empty :: "engine \<Rightarrow> jsval \<Rightarrow> error + string" where
  "js_trim_or_empty g JUndefined = Inr []"
| "js_trim_or_empty g JNull = Inr []"
| "js_trim_or_empty g (JStr s) = Inr (trim g s)"
| "js_trim_or_empty g v = Inl TypeError"

section \<open>Dates\<close>

text \<open>
  A \<^verbatim>\<open>Date\<close> is its time value, the number of milliseconds since the epoch (within
  the range of valid dates); \<^verbatim>\<open>toISOString\<close> followed by \<^verbatim>\<open>new Date(iso)\<close> is the
  identity on it. The time zone of the browser is a parameter: a \<open>zone\<close> gives the
  offset of local time from UTC, in milliseconds, at a UTC time value and at a local
  time value (the two arguments of \<^verbatim>\<open>LocalTZA\<close> in the language standard), so that a
  zone with daylight saving is a zone like any other.
\<close>

definition msPerDay :: int where
  "msPerDay = 86400000"

record zone =
  offsetAtUTC :: "int \<Rightarrow> int"
  offsetAtLocal :: "int \<Rightarrow> int"

definition LocalTime :: "zone \<Rightarrow> int \<Rightarrow> int" where
  "LocalTime z t = t + offsetAtUTC z t"

definition UTC_time :: "zone \<Rightarrow> int \<Rightarrow> int" where
  "UTC_time z t = t - offsetAtLocal z t"

text \<open>
  \<^verbatim>\<open>d.setDate(d.getDate() + n)\<close>: the standard takes the local time of \<open>d\<close>, moves its
  day number by \<open>n\<close> with the time within the day unchanged, and converts the result
  back to UTC.
\<close>

definition plusDays :: "zone \<Rightarrow> int \<Rightarrow> int \<Rightarrow> int" where
  "plusDays z d n = UTC_time z (LocalTime z d + n * msPerDay)"

text \<open>
  The streak tracker uses dates only to tell local calendar days apart. It is modelled
  in a zone of fixed offset \<open>tz\<close>: there \<^verbatim>\<open>d.setDate(d.getDate() + n)\<close> moves \<open>d\<close> by
  \<open>n\<close> times 24 hours, and \<^verbatim>\<open>toDateString\<close>, which prints the local calendar date,
  is determined by the number of the local day.
\<close>

definition fixed_zone :: "int \<Rightarrow> zone" where
  "fixed_zone tz = \<lparr>offsetAtUTC = (\<lambda>t. tz), offsetAtLocal = (\<lambda>t. tz)\<rparr>"

definition addDays :: "int \<Rightarrow> int \<Rightarrow> int" where
  "addDays d n = d + n * msPerDay"

definition toDateString :: "int \<Rightarrow> int \<Rightarrow> int" where
  "toDateString tz d = (d + tz) div msPerDay"

section \<open>Words and the repository\<close>

text \<open>
  A stored word carries its \<^verbatim>\<open>stats\<close> object with the fields that \<^verbatim>\<open>addWord\<close> gives it.
\<close>

record stats =
  addedAt :: int
  timesTested :: int
  correctCount :: int
  wrongCount :: int
  lastTested :: "int option"
  difficultyScore :: int
  nextReviewDate :: int
  learned :: bool

record word =
  id_w :: string
  english :: jsval
  turkish :: jsval
  pronunciation :: string
  turkishExplanation :: string
  englishExplanation :: string
  synonyms :: jsval
  antonyms :: jsval
  examples :: jsval
  level :: jsval
  categories :: jsval
  notes_w :: string
  favorite :: jsval
  stats :: stats
  turkExp :: string
  turkishExp :: string

text \<open>
  \<^verbatim>\<open>state.words\<close> is an object keyed by word id. It is an association list with
  distinct keys in the order of their creation: \<^verbatim>\<open>state.words[k] = w\<close> replaces the
  value of an existing key in place and appends a new key at the end.
\<close>

type_synonym words = "(string \<times> word) list"

text \<open>
  \<^verbatim>\<open>Object.values\<close> lists the values of the keys that are array indices (a decimal
  numeral without leading zero, below \<open>2\<^sup>3\<^sup>2 - 1\<close>) first, in ascending numeric order,
  and then the values of the other keys in the order of their creation. The ids that
  the program generates are UUIDs, which are not array indices; an imported file can
  bring any key.
\<close>

definition isDigit :: "char \<Rightarrow> bool" where
  "isDigit c = (let n = (of_char c :: nat) in 48 \<le> n \<and> n \<le> 57)"

definition decimal :: "string \<Rightarrow> nat" where
  "decimal k = foldl (\<lambda>n c. 10 * n + (of_char c - 48)) 0 k"

definition arrayIndex :: "string \<Rightarrow> nat option" where
  "arrayIndex k =
     (if k \<noteq> [] \<and> list_all isDigit k \<and> (length k = 1 \<or> hd k \<noteq> CHR ''0'') \<and>
         decimal k < 4294967295
      then Some (decimal k) else None)"

definition indexKey :: "string \<times> word \<Rightarrow> nat" where
  "indexKey p = (case arrayIndex (fst p) of None \<Rightarrow> 0 | Some n \<Rightarrow> n)"

definition values_of :: "words \<Rightarrow> word list" where
  "values_of ws =
     map snd (sort_key indexKey (filter (\<lambda>p. arrayIndex (fst p) \<noteq> None) ws)) @
     map snd (filter (\<lambda>p. arrayIndex (fst p) = None) ws)"

section \<open>Review scheduler\<close>

definition intervals :: "int list" where
  "intervals = [1, 3, 7, 14, 30, 90]"

text \<open>
  The body of \<^verbatim>\<open>updateWordStats\<close> on \<^verbatim>\<open>word.stats\<close>, with \<open>now\<close> the value of
  \<^verbatim>\<open>new Date()\<close> during the call and \<open>z\<close> the time zone of the browser. (A function
  that reads the clock more than once in one call, as this one, \<^verbatim>\<open>addWord\<close> and
  \<^verbatim>\<open>updateStreak\<close> do, gets the same reading each time.)
\<close>

definition stats_after_answer :: "zone \<Rightarrow> int \<Rightarrow> stats \<Rightarrow> bool \<Rightarrow> stats" where
  "stats_after_answer z now st correct =
     (let s1 = st\<lparr>timesTested := timesTested st + 1, lastTested := Some now\<rparr>;
          s2 = (if correct then
                  (let s = s1\<lparr>correctCount := correctCount s1 + 1,
                              difficultyScore := max 0 (difficultyScore s1 - 1)\<rparr>;
                       streak = correctCount s - wrongCount s;
                       intervalIndex = min (max 0 (streak - 1)) (int (length intervals) - 1);
                       days = intervals ! nat intervalIndex
                   in s\<lparr>nextReviewDate := plusDays z now days\<rparr>)
                else
                  (let s = s1\<lparr>wrongCount := wrongCount s1 + 1,
                              difficultyScore := difficultyScore s1 + 2\<rparr>
                   in s\<lparr>nextReviewDate := plusDays z now 1\<rparr>))
      in if correctCount s2 \<ge> 5 \<and> wrongCount s2 = 0 then s2\<lparr>learned := True\<rparr> else s2)"

text \<open>
  \<^verbatim>\<open>updateWordStats(id, correct)\<close> on \<^verbatim>\<open>state.words\<close>. (Its last statements refresh the
  counters of the page header and schedule a save; the stats are written before.)
\<close>

definition updateWordStats :: "zone \<Rightarrow> int \<Rightarrow> words \<Rightarrow> string \<Rightarrow> bool \<Rightarrow> words" where
  "updateWordStats z now ws wid correct =
     (case map_of ws wid of
        None \<Rightarrow> ws
      | Some w \<Rightarrow> AList.update wid (w\<lparr>stats := stats_after_answer z now (stats w) correct\<rparr>) ws)"

definition toggleLearned :: "words \<Rightarrow> string \<Rightarrow> words" where
  "toggleLearned ws wid =
     (case map_of ws wid of
        None \<Rightarrow> ws
      | Some w \<Rightarrow> AList.update wid (w\<lparr>stats := (stats w)\<lparr>learned := \<not> learned (stats w)\<rparr>\<rparr>) ws)"

text \<open>
  The click handlers of the settings buttons \<^verbatim>\<open>btn-reset-learned\<close> and
  \<^verbatim>\<open>btn-reset-stats\<close>, on \<^verbatim>\<open>state.words\<close>; \<open>confirmed\<close> is the answer to the
  \<^verbatim>\<open>confirm\<close> dialog. (The second handler also empties the history and resets the
  streak.)
\<close>

definition reset_learned :: "bool \<Rightarrow> words \<Rightarrow> words" where
  "reset_learned confirmed ws =
     (if confirmed
      then map (\<lambda>(k, word). (k, word\<lparr>stats := (stats word)\<lparr>learned := False\<rparr>\<rparr>)) ws
      else ws)"

definition reset_stats :: "bool \<Rightarrow> words \<Rightarrow> words" where
  "reset_stats confirmed ws =
     (if confirmed
      then map (\<lambda>(k, word).
             (k, word\<lparr>stats := (stats word)\<lparr>timesTested := 0, correctCount := 0,
                    wrongCount := 0, lastTested := None, difficultyScore := 0,
                    learned := False\<rparr>\<rparr>)) ws
      else ws)"

text \<open>
  A run of the scheduler on one word: the calls \<^verbatim>\<open>updateWordStats(id, correct)\<close> made
  for the answers of a quiz, each with the time of its call.
\<close>

fun answers :: "zone \<Rightarrow> words \<Rightarrow> string \<Rightarrow> (int \<times> bool) list \<Rightarrow> words" where
  "answers z ws wid [] = ws"
| "answers z ws wid ((now, correct) # rest) =
     answers z (updateWordStats z now ws wid correct) wid rest"

text \<open>The same run on the \<^verbatim>\<open>stats\<close> of the word alone.\<close>

fun stats_run :: "zone \<Rightarrow> stats \<Rightarrow> (int \<times> bool) list \<Rightarrow> stats" where
  "stats_run z st [] = st"
| "stats_run z st ((now, c) # rest) = stats_run z (stats_after_answer z now st c) rest"

text \<open>
  \<^verbatim>\<open>isHardWord\<close>. For a positive \<open>timesTested\<close> (and counters far below \<open>2\<^sup>5\<^sup>0\<close>) the
  floating-point test \<^verbatim>\<open>wrongCount / timesTested >= 0.4\<close> is the integer test
  \<open>5 * wrongCount \<ge> 2 * timesTested\<close>.
\<close>

definition isHardWord :: "word \<Rightarrow> bool" where
  "isHardWord w =
     (difficultyScore (stats w) \<ge> 3 \<or>
      (timesTested (stats w) \<ge> 3 \<and> 5 * wrongCount (stats w) \<ge> 2 * timesTested (stats w)))"

section \<open>Streak tracker\<close>

record streak =
  current :: int
  best :: int
  lastActive :: "int option"



section \<open>Application state\<close>

text \<open>
  The global \<^verbatim>\<open>state\<close>, of which the model keeps \<^verbatim>\<open>words\<close> and \<^verbatim>\<open>appStats\<close>. A
  replace import makes the imported file the state, and a file need not have
  \<^verbatim>\<open>appStats\<close>: the property is then \<^verbatim>\<open>undefined\<close>, here \<open>None\<close>.
\<close>

record appStats =
  totalAdded :: int
  totalLearned :: int
  favoritesCount :: int
  hardCount :: int
  streak :: streak

record state =
  words :: words
  appStats :: "appStats option"

text \<open>
  \<^verbatim>\<open>updateStats()\<close>: it recounts the words into \<^verbatim>\<open>state.appStats\<close>, which raises a
  \<^verbatim>\<open>TypeError\<close> when \<^verbatim>\<open>appStats\<close> is missing, and then writes the counts into the five
  counters of the page header, which raises a \<^verbatim>\<open>TypeError\<close> when the page has no such
  elements; \<open>hdr\<close> tells whether it has them. The result is the state at the end, with
  the error if one was raised. (The stored words are records that have their
  \<^verbatim>\<open>stats\<close>, and \<^verbatim>\<open>appStats\<close>, when present, has its \<^verbatim>\<open>streak\<close>: the reads
  \<^verbatim>\<open>w.stats.learned\<close> and \<^verbatim>\<open>state.appStats.streak.current\<close> do not raise.)
\<close>

definition updateStats :: "bool \<Rightarrow> state \<Rightarrow> state \<times> (error + unit)" where
  "updateStats hdr st =
     (case appStats st of
        None \<Rightarrow> (st, Inl TypeError)
      | Some a \<Rightarrow>
          (let ws = values_of (words st);
               a' = a\<lparr>totalAdded := int (length ws),
                      totalLearned := int (length (filter (\<lambda>w. learned (stats w)) ws)),
                      favoritesCount := int (length (filter (\<lambda>w. truthy (favorite w)) ws)),
                      hardCount := int (length (filter isHardWord ws))\<rparr>;
               st' = st\<lparr>appStats := Some a'\<rparr>
           in if hdr then (st', Inr ()) else (st', Inl TypeError)))"

section \<open>Word repository operations\<close>

text \<open>
  The argument of \<^verbatim>\<open>addWord\<close> is an object: a function from property names to values,
  an absent property reading as \<^verbatim>\<open>undefined\<close>.
\<close>

type_synonym wordData = "string \<Rightarrow> jsval"

definition new_stats :: "int \<Rightarrow> stats" where
  "new_stats now =
     \<lparr>addedAt = now, timesTested = 0, correctCount = 0, wrongCount = 0, lastTested = None,
      difficultyScore = 0, nextReviewDate = now, learned = False\<rparr>"

text \<open>
  The object literal at the head of \<^verbatim>\<open>addWord(wordData)\<close> together with the two
  assignments that mirror the Turkish explanation: \<open>uuid\<close> is the result of
  \<^verbatim>\<open>generateUUID()\<close> and \<open>now\<close> the time of the call. The property reads are evaluated
  in the order of the literal, and the first that raises ends the call.
\<close>

definition new_word :: "engine \<Rightarrow> string \<Rightarrow> int \<Rightarrow> wordData \<Rightarrow> error + word" where
  "new_word g uuid now wordData =
     (case js_trim g (wordData ''english'') of Inl e \<Rightarrow> Inl e | Inr en \<Rightarrow>
      case js_trim_or_empty g (wordData ''turkish'') of Inl e \<Rightarrow> Inl e | Inr tr \<Rightarrow>
      case js_trim_or_empty g (wordData ''pronunciation'') of Inl e \<Rightarrow> Inl e | Inr pr \<Rightarrow>
      case js_trim_or_empty g (wordData ''turkishExplanation'') of Inl e \<Rightarrow> Inl e | Inr te \<Rightarrow>
      case js_trim_or_empty g (wordData ''englishExplanation'') of Inl e \<Rightarrow> Inl e | Inr ee \<Rightarrow>
      case js_trim_or_empty g (wordData ''notes'') of Inl e \<Rightarrow> Inl e | Inr no \<Rightarrow>
        Inr \<lparr>id_w = uuid,
             english = en,
             turkish = JStr tr,
             pronunciation = pr,
             turkishExplanation = te,
             englishExplanation = ee,
             synonyms = js_or (wordData ''synonyms'') (JArr []),
             antonyms = js_or (wordData ''antonyms'') (JArr []),
             examples = js_or (wordData ''examples'') (JArr []),
             level = js_or (wordData ''level'') (JStr ''C1''),
             categories = js_or (wordData ''categories'') (JArr []),
             notes_w = no,
             favorite = js_or (wordData ''favorite'') (JBool False),
             stats = new_stats now,
             turkExp = te,
             turkishExp = te\<rparr>)"

text \<open>
  \<^verbatim>\<open>addWord(wordData)\<close> on the state: the word is built and stored, then
  \<^verbatim>\<open>state.appStats.totalAdded\<close> is assigned, which raises a \<^verbatim>\<open>TypeError\<close> when
  \<^verbatim>\<open>appStats\<close> is missing, then \<^verbatim>\<open>updateStats()\<close> runs, and the word is returned. An
  error raised after the word has been stored leaves it stored. (The delayed save
  that is scheduled before the return is outside the model.)
\<close>

definition addWord ::
  "engine \<Rightarrow> bool \<Rightarrow> string \<Rightarrow> int \<Rightarrow> state \<Rightarrow> wordData \<Rightarrow> state \<times> (error + word)" where
  "addWord g hdr uuid now st wordData =
     (case new_word g uuid now wordData of
        Inl e \<Rightarrow> (st, Inl e)
      | Inr word \<Rightarrow>
          (let st1 = st\<lparr>words := AList.update uuid word (words st)\<rparr>
           in case appStats st1 of
                None \<Rightarrow> (st1, Inl TypeError)
              | Some a \<Rightarrow>
                  (let st2 = st1\<lparr>appStats := Some (a\<lparr>totalAdded := int (length (words st1))\<rparr>)\<rparr>
                   in case updateStats hdr st2 of
                        (st3, Inl e) \<Rightarrow> (st3, Inl e)
                      | (st3, Inr u) \<Rightarrow> (st3, Inr word))))"

text \<open>
  The words of a statement about \<^verbatim>\<open>addWord\<close>: a value is a string; a value is a
  string or absent (\<^verbatim>\<open>undefined\<close> or \<^verbatim>\<open>null\<close>); the english of the argument is a
  string and its five optional texts are strings or absent.
\<close>

fun is_string :: "jsval \<Rightarrow> bool" where
  "is_string (JStr s) = True"
| "is_string v = False"

fun string_or_absent :: "jsval \<Rightarrow> bool" where
  "string_or_absent (JStr s) = True"
| "string_or_absent JUndefined = True"
| "string_or_absent JNull = True"
| "string_or_absent v = False"

definition text_shaped :: "wordData \<Rightarrow> bool" where
  "text_shaped wordData =
     (is_string (wordData ''english'') \<and>
      string_or_absent (wordData ''turkish'') \<and>
      string_or_absent (wordData ''pronunciation'') \<and>
      string_or_absent (wordData ''turkishExplanation'') \<and>
      string_or_absent (wordData ''englishExplanation'') \<and>
      string_or_absent (wordData ''notes''))"

text \<open>\<^verbatim>\<open>validateWordForm(english, turkish, level)\<close> on the strings of the form.\<close>

definition validateWordForm :: "engine \<Rightarrow> string \<Rightarrow> string \<Rightarrow> string \<Rightarrow> bool" where
  "validateWordForm g en tr lv = (trim g en \<noteq> [] \<and> trim g tr \<noteq> [] \<and> lv \<noteq> [])"

text \<open>
  The effect on \<^verbatim>\<open>state.words\<close> of \<^verbatim>\<open>deleteWord(id)\<close>, of \<^verbatim>\<open>toggleFavorite(id)\<close> and of
  the confirmed \<^verbatim>\<open>confirmClearAll\<close>, which installs a state without words.
\<close>

definition deleteWord :: "words \<Rightarrow> string \<Rightarrow> words" where
  "deleteWord ws wid = (case map_of ws wid of None \<Rightarrow> ws | Some w \<Rightarrow> AList.delete wid ws)"

definition toggleFavorite :: "words \<Rightarrow> string \<Rightarrow> words" where
  "toggleFavorite ws wid =
     (case map_of ws wid of
        None \<Rightarrow> ws
      | Some w \<Rightarrow> AList.update wid (w\<lparr>favorite := JBool (\<not> truthy (favorite w))\<rparr>) ws)"

text \<open>
  The effect on \<^verbatim>\<open>state.words\<close> of \<^verbatim>\<open>updateWord(id, wordData)\<close>: an unknown id changes
  nothing; otherwise the properties of \<^verbatim>\<open>wordData\<close> overwrite those of the stored word,
  the explanation and the notes are normalised, and the stats are those of the stored
  word (\<^verbatim>\<open>stats: state.words[id].stats\<close>). What the properties of \<^verbatim>\<open>wordData\<close> and the
  normalisation do to the record is the parameter \<open>patch\<close>.
\<close>

definition updateWord :: "words \<Rightarrow> string \<Rightarrow> (word \<Rightarrow> word) \<Rightarrow> words" where
  "updateWord ws wid patch =
     (case map_of ws wid of
        None \<Rightarrow> ws
      | Some w \<Rightarrow> AList.update wid ((patch w)\<lparr>stats := stats w\<rparr>) ws)"

definition clearAll :: "words \<Rightarrow> words" where
  "clearAll ws = []"

text \<open>\<^verbatim>\<open>Array.prototype.find\<close> with a predicate that can raise.\<close>

fun find_r :: "('a \<Rightarrow> error + bool) \<Rightarrow> 'a list \<Rightarrow> error + 'a option" where
  "find_r p [] = Inr None"
| "find_r p (x # xs) =
     (case p x of
        Inl e \<Rightarrow> Inl e
      | Inr b \<Rightarrow> if b then Inr (Some x) else find_r p xs)"

text \<open>\<^verbatim>\<open>v && v.trim().toLowerCase() === s\<close>\<close>

definition field_matches :: "engine \<Rightarrow> jsval \<Rightarrow> string \<Rightarrow> error + bool" where
  "field_matches g v s =
     (if truthy v then
        (case js_trim g v of
           Inl e \<Rightarrow> Inl e
         | Inr t \<Rightarrow> (case js_toLowerCase g t of Inl e \<Rightarrow> Inl e | Inr l \<Rightarrow> Inr (l = s)))
      else Inr False)"

text \<open>\<^verbatim>\<open>findDuplicate(english, turkish)\<close>, called with the two strings of the form.\<close>

definition findDuplicate :: "engine \<Rightarrow> words \<Rightarrow> string \<Rightarrow> string \<Rightarrow> error + word option" where
  "findDuplicate g ws en tr =
     (if en = [] then Inr None
      else
        (let e = toLowerCase g (trim g en);
             t = toLowerCase g (trim g tr)
         in find_r (\<lambda>w.
              case field_matches g (english w) e of
                Inl err \<Rightarrow> Inl err
              | Inr b \<Rightarrow>
                  if b then Inr True
                  else if t \<noteq> [] then field_matches g (turkish w) t
                  else Inr False) (values_of ws)))"

section \<open>Import\<close>

text \<open>
  The predicate of the \<^verbatim>\<open>find\<close> in the merge branch of \<^verbatim>\<open>importData\<close>: both
  comparisons joined by \<^verbatim>\<open>&&\<close>, the second evaluated only when the first holds.
\<close>

definition merge_match :: "engine \<Rightarrow> word \<Rightarrow> word \<Rightarrow> error + bool" where
  "merge_match g w word =
     (case js_toLowerCase g (english w) of Inl e \<Rightarrow> Inl e | Inr we \<Rightarrow>
      case js_toLowerCase g (english word) of Inl e \<Rightarrow> Inl e | Inr ie \<Rightarrow>
        if we = ie then
          (case js_toLowerCase g (turkish w) of Inl e \<Rightarrow> Inl e | Inr wt \<Rightarrow>
           case js_toLowerCase g (turkish word) of Inl e \<Rightarrow> Inl e | Inr it \<Rightarrow> Inr (wt = it))
        else Inr False)"

text \<open>
  The \<^verbatim>\<open>forEach\<close> over \<^verbatim>\<open>Object.values(imported.words)\<close> with its two counters. A
  \<^verbatim>\<open>TypeError\<close> raised by a comparison ends the loop (it is caught at the end of
  \<^verbatim>\<open>importData\<close>); the words inserted before it stay in \<^verbatim>\<open>state.words\<close>.
\<close>

fun merge_words ::
  "engine \<Rightarrow> words \<Rightarrow> word list \<Rightarrow> nat \<Rightarrow> nat \<Rightarrow> words \<times> (error + nat \<times> nat)" where
  "merge_words g ws [] merged skipped = (ws, Inr (merged, skipped))"
| "merge_words g ws (word # rest) merged skipped =
     (case find_r (\<lambda>w. merge_match g w word) (values_of ws) of
        Inl e \<Rightarrow> (ws, Inl e)
      | Inr None \<Rightarrow> merge_words g (AList.update (id_w word) word ws) rest (merged + 1) skipped
      | Inr (Some w) \<Rightarrow> merge_words g ws rest merged (skipped + 1))"

datatype mode = Replace | Merge

text \<open>
  \<^verbatim>\<open>importData(fileContent, mode)\<close> after the file has been parsed and found to have
  \<^verbatim>\<open>meta\<close> and \<^verbatim>\<open>words\<close>: \<open>imported\<close> is the parsed file. In replace mode the file becomes
  the state; in merge mode the loop runs on its words. Then the state is saved and
  \<^verbatim>\<open>updateStats()\<close> runs. An error raised on the way is caught at the end of the function
  and reported; what was changed before it stays changed. The second component is the
  error, or the pair \<open>(merged, skipped)\<close> of the merge, absent in replace mode.
\<close>

definition importData ::
  "engine \<Rightarrow> bool \<Rightarrow> state \<Rightarrow> state \<Rightarrow> mode \<Rightarrow> state \<times> (error + (nat \<times> nat) option)" where
  "importData g hdr st imported m =
     (case m of
        Replace \<Rightarrow>
          (case updateStats hdr imported of
             (st', Inl e) \<Rightarrow> (st', Inl e)
           | (st', Inr u) \<Rightarrow> (st', Inr None))
      | Merge \<Rightarrow>
          (case merge_words g (words st) (values_of (words imported)) 0 0 of
             (ws', Inl e) \<Rightarrow> (st\<lparr>words := ws'\<rparr>, Inl e)
           | (ws', Inr c) \<Rightarrow>
               (case updateStats hdr (st\<lparr>words := ws'\<rparr>) of
                  (st', Inl e) \<Rightarrow> (st', Inl e)
                | (st', Inr u) \<Rightarrow> (st', Inr (Some c)))))"

text \<open>
  The words of a statement about the merge: both text fields of a word are strings;
  two words agree on english and on turkish up to case; two words agree on english up
  to case; and the merge as the statement describes it, one imported word after the
  other, on the repository and the two counts.
\<close>

definition has_text :: "word \<Rightarrow> bool" where
  "has_text w = (is_string (english w) \<and> is_string (turkish w))"

definition same_text :: "engine \<Rightarrow> word \<Rightarrow> word \<Rightarrow> bool" where
  "same_text g w word =
     (js_toLowerCase g (english w) = js_toLowerCase g (english word) \<and>
      js_toLowerCase g (turkish w) = js_toLowerCase g (turkish word))"

definition same_english :: "engine \<Rightarrow> word \<Rightarrow> word \<Rightarrow> bool" where
  "same_english g w word = (js_toLowerCase g (english w) = js_toLowerCase g (english word))"

definition skip_or_insert :: "engine \<Rightarrow> words \<times> nat \<times> nat \<Rightarrow> word \<Rightarrow> words \<times> nat \<times> nat" where
  "skip_or_insert g acc word =
     (case acc of (ws, merged, skipped) \<Rightarrow>
        if list_ex (\<lambda>w. same_text g w word) (values_of ws)
        then (ws, merged, skipped + 1)
        else (AList.update (id_w word) word ws, merged + 1, skipped))"

definition merge_described :: "engine \<Rightarrow> words \<Rightarrow> word list \<Rightarrow> words \<times> nat \<times> nat" where
  "merge_described g ws imported = foldl (skip_or_insert g) (ws, 0, 0) imported"

section \<open>Quiz engine\<close>

text \<open>
  \<^verbatim>\<open>array.sort(() => Math.random() - 0.5)\<close> rearranges the array in a way that depends
  on the random numbers drawn. The draws are a parameter of the model: each element is
  put into the rearranged rest at the position its draw selects, and with no draws
  left the order is kept.
\<close>

definition insert_at :: "nat \<Rightarrow> 'a \<Rightarrow> 'a list \<Rightarrow> 'a list" where
  "insert_at n x xs = take n xs @ x # drop n xs"

fun shuffle :: "nat list \<Rightarrow> 'a list \<Rightarrow> 'a list" where
  "shuffle rs [] = []"
| "shuffle [] (x # xs) = x # xs"
| "shuffle (r # rs) (x # xs) = insert_at (r mod Suc (length xs)) x (shuffle rs xs)"

text \<open>
  \<^verbatim>\<open>a === b\<close>. Arrays are compared by identity in JavaScript; the arrays held by two
  different words are different objects.
\<close>

fun strict_equals :: "jsval \<Rightarrow> jsval \<Rightarrow> bool" where
  "strict_equals (JArr xs) b = False"
| "strict_equals a (JArr ys) = False"
| "strict_equals a b = (a = b)"

text \<open>The two values of \<^verbatim>\<open>field\<close> that \<^verbatim>\<open>generateDistractors\<close> is called with.\<close>

datatype field = English_field | Turkish_field

fun get_field :: "field \<Rightarrow> word \<Rightarrow> jsval" where
  "get_field English_field w = english w"
| "get_field Turkish_field w = turkish w"

text \<open>
  \<^verbatim>\<open>generateDistractors(word, field)\<close>, with its locals \<^verbatim>\<open>allWords\<close> and
  \<^verbatim>\<open>sameLevel\<close> as functions of the repository and the word, and \<open>rs\<close> the draws of
  the shuffle.
\<close>

definition allWords :: "words \<Rightarrow> word \<Rightarrow> word list" where
  "allWords ws word = filter (\<lambda>w. id_w w \<noteq> id_w word) (values_of ws)"

definition sameLevel :: "words \<Rightarrow> word \<Rightarrow> word list" where
  "sameLevel ws word = filter (\<lambda>w. strict_equals (level w) (level word)) (allWords ws word)"

definition generateDistractors :: "nat list \<Rightarrow> words \<Rightarrow> word \<Rightarrow> field \<Rightarrow> jsval list" where
  "generateDistractors rs ws word fld =
     (let pool = (if length (sameLevel ws word) \<ge> 3 then sameLevel ws word
                  else allWords ws word);
          shuffled = shuffle rs pool
      in map (\<lambda>w. js_or (get_field fld w) (english w)) (take 3 shuffled))"

definition getDueWords :: "int \<Rightarrow> words \<Rightarrow> word list" where
  "getDueWords now ws = filter (\<lambda>w. nextReviewDate (stats w) \<le> now) (values_of ws)"

text \<open>\<^verbatim>\<open>Array.prototype.filter\<close> with a predicate that can raise.\<close>

fun filter_r :: "('a \<Rightarrow> error + bool) \<Rightarrow> 'a list \<Rightarrow> error + 'a list" where
  "filter_r p [] = Inr []"
| "filter_r p (x # xs) =
     (case p x of
        Inl e \<Rightarrow> Inl e
      | Inr b \<Rightarrow>
          (case filter_r p xs of
             Inl e \<Rightarrow> Inl e
           | Inr ys \<Rightarrow> Inr (if b then x # ys else ys)))"

text \<open>
  \<^verbatim>\<open>v.includes(c)\<close> for a string \<open>c\<close>: membership in an array, containment in a string,
  a \<^verbatim>\<open>TypeError\<close> on anything else.
\<close>

fun js_includes :: "jsval \<Rightarrow> string \<Rightarrow> error + bool" where
  "js_includes (JArr xs) c = Inr (JStr c \<in> set xs)"
| "js_includes (JStr s) c = Inr (sublist c s)"
| "js_includes v c = Inl TypeError"

definition getWordsByCategory :: "words \<Rightarrow> string \<Rightarrow> error + word list" where
  "getWordsByCategory ws category = filter_r (\<lambda>w. js_includes (categories w) category) (values_of ws)"

text \<open>
  The value of the source selector together with what the branch of the \<^verbatim>\<open>switch\<close>
  reads from the page: the chosen category, or the ids of the ticked words. A value
  matched by no \<^verbatim>\<open>case\<close> leaves \<^verbatim>\<open>words\<close> empty.
\<close>

datatype source =
    All_words
  | Due
  | Favorites
  | Hard
  | Category string
  | Custom "string list"
  | Other_source

fun is_custom :: "source \<Rightarrow> bool" where
  "is_custom (Custom ids) = True"
| "is_custom src = False"

fun source_words :: "int \<Rightarrow> words \<Rightarrow> source \<Rightarrow> error + word list" where
  "source_words now ws All_words = Inr (values_of ws)"
| "source_words now ws Due = Inr (getDueWords now ws)"
| "source_words now ws Favorites = Inr (filter (\<lambda>w. truthy (favorite w)) (values_of ws))"
| "source_words now ws Hard = Inr (filter isHardWord (values_of ws))"
| "source_words now ws (Category category) = getWordsByCategory ws category"
| "source_words now ws (Custom selectedIds) =
     Inr (filter (\<lambda>w. id_w w \<in> set selectedIds) (values_of ws))"
| "source_words now ws Other_source = Inr []"

record answer =
  wordId :: string
  type_a :: string
  userAnswer :: string
  correctAnswer :: jsval
  correct :: bool

record quiz =
  id_q :: string
  questions :: "(word \<times> string) list"
  currentIndex :: nat
  answers_q :: "answer list"
  startTime :: int

datatype start_result = Rejected string | Started quiz

text \<open>
  \<^verbatim>\<open>startQuiz()\<close>. Its inputs are read from the page: the source, the randomize box,
  the values of the ticked question types, and the word count field, whose
  \<^verbatim>\<open>parseInt\<close> is \<open>None\<close> when it is \<^verbatim>\<open>NaN\<close>. \<open>rs1\<close> and \<open>rs2\<close> are the random draws
  of the two shuffles. A rejection shows a message and leaves \<^verbatim>\<open>currentQuiz\<close> as it
  was.
\<close>

definition startQuiz ::
  "nat list \<Rightarrow> nat list \<Rightarrow> string \<Rightarrow> int \<Rightarrow> words \<Rightarrow> source \<Rightarrow> bool \<Rightarrow> string list \<Rightarrow> int option
     \<Rightarrow> error + start_result" where
  "startQuiz rs1 rs2 uuid now ws src randomize questionTypes countField =
     (if length questionTypes = 0
      then Inr (Rejected ''Please select at least one question type.'')
      else
        case source_words now ws src of
          Inl e \<Rightarrow> Inl e
        | Inr ws_sel \<Rightarrow>
            if length ws_sel < 5
            then Inr (Rejected ''You need at least 5 words to start a quiz.'')
            else
              (let wordCount = (if is_custom src then Some (int (length ws_sel)) else countField)
               in if \<not> is_custom src \<and> (case wordCount of None \<Rightarrow> False | Some n \<Rightarrow> n < 5)
                  then Inr (Rejected ''Please select at least 5 words.'')
                  else
                    (let shuffled = shuffle rs1 ws_sel;
                         selectedWords =
                           (case wordCount of
                              None \<Rightarrow> []
                            | Some n \<Rightarrow> take (nat (min n (int (length ws_sel)))) shuffled);
                         qs = concat (map (\<lambda>word. map (\<lambda>type. (word, type)) questionTypes)
                                 selectedWords);
                         qs' = (if randomize then shuffle rs2 qs else qs)
                     in Inr (Started \<lparr>id_q = uuid, questions = qs', currentIndex = 0,
                                      answers_q = [], startTime = now\<rparr>))))"

section \<open>Operations on the repository\<close>

text \<open>
  The operations of the program that write \<^verbatim>\<open>state.words\<close>, each with its arguments,
  and the repository after an operation: an answer recorded at a time, the manual
  toggle of the learned flag, the two reset actions of the settings with the answer
  to their dialog, \<^verbatim>\<open>addWord\<close> with the new id and the time, an import of the words of
  a file in a mode (after an error the words stored so far), \<^verbatim>\<open>updateWord\<close>,
  \<^verbatim>\<open>deleteWord\<close>,
  \<^verbatim>\<open>toggleFavorite\<close>, and the confirmed clearing of all data.
\<close>

datatype operation =
    Answer int string bool
  | ToggleLearned string
  | ResetLearned bool
  | ResetStats bool
  | AddWord string int wordData
  | Import words mode
  | UpdateWord string "word \<Rightarrow> word"
  | DeleteWord string
  | ToggleFavorite string
  | ClearAll

fun perform :: "zone \<Rightarrow> engine \<Rightarrow> operation \<Rightarrow> words \<Rightarrow> words" where
  "perform z g (Answer now wid c) ws = updateWordStats z now ws wid c"
| "perform z g (ToggleLearned wid) ws = toggleLearned ws wid"
| "perform z g (ResetLearned confirmed) ws = reset_learned confirmed ws"
| "perform z g (ResetStats confirmed) ws = reset_stats confirmed ws"
| "perform z g (AddWord uuid now wordData) ws =
     (case new_word g uuid now wordData of
        Inl e \<Rightarrow> ws
      | Inr word \<Rightarrow> AList.update uuid word ws)"
| "perform z g (Import imported m) ws =
     (case m of
        Replace \<Rightarrow> imported
      | Merge \<Rightarrow> fst (merge_words g ws (values_of imported) 0 0))"
| "perform z g (UpdateWord wid patch) ws = updateWord ws wid patch"
| "perform z g (DeleteWord wid) ws = deleteWord ws wid"
| "perform z g (ToggleFavorite wid) ws = toggleFavorite ws wid"
| "perform z g ClearAll ws = clearAll ws"

section \<open>Sample data\<close>

text \<open>
  The examples are made of ASCII strings, on which the two string methods do not
  consult the Unicode tables of the engine; they are run with an engine that has the
  identity in their place.
\<close>

definition ascii_engine :: engine where
  "ascii_engine = \<lparr>toLowerCaseUnicode = id, trimUnicode = id\<rparr>"

text \<open>
  The zone of New York around 10 March 2024, when daylight saving time began at 07:00
  UTC (time value 1710054000000): five hours behind UTC before, four hours from then
  on; the local times from 03:00 of that day (1710039600000) on have the later offset.
\<close>

definition new_york :: zone where
  "new_york =
     \<lparr>offsetAtUTC = (\<lambda>t. if t < 1710054000000 then - 18000000 else - 14400000),
      offsetAtLocal = (\<lambda>t. if t < 1710039600000 then - 18000000 else - 14400000)\<rparr>"

text \<open>A word as \<^verbatim>\<open>addWord\<close> stores it for the given id, texts and level at time 0.\<close>

definition mk_word :: "string \<Rightarrow> string \<Rightarrow> string \<Rightarrow> string \<Rightarrow> word" where
  "mk_word i en tr lv =
     \<lparr>id_w = i, english = JStr en, turkish = JStr tr, pronunciation = [],
      turkishExplanation = [], englishExplanation = [], synonyms = JArr [],
      antonyms = JArr [], examples = JArr [], level = JStr lv, categories = JArr [],
      notes_w = [], favorite = JBool False, stats = new_stats 0, turkExp = [],
      turkishExp = []\<rparr>"

text \<open>The object \<^verbatim>\<open>{}\<close> and objects with some of the properties of a word.\<close>

definition empty_object :: wordData where
  "empty_object = (\<lambda>k. JUndefined)"

definition only_english :: wordData where
  "only_english = empty_object(''english'' := JStr ''  cat '')"

definition only_turkish :: wordData where
  "only_turkish = empty_object(''turkish'' := JStr ''kedi'')"

definition odd_turkish :: wordData where
  "odd_turkish = empty_object(''english'' := JStr ''cat'', ''turkish'' := JNum 5)"

definition blank_english :: wordData where
  "blank_english = empty_object(''english'' := JStr ''  '', ''turkish'' := JStr [])"

definition repo1 :: words where
  "repo1 = [(''w1'', mk_word ''w1'' ''apple'' ''elma'' ''B1'')]"

definition repo4 :: words where
  "repo4 =
     [(''w1'', mk_word ''w1'' ''big'' ''buyuk'' ''B1''),
      (''w2'', mk_word ''w2'' ''large'' ''buyuk'' ''B1''),
      (''w3'', mk_word ''w3'' ''small'' ''kucuk'' ''B1''),
      (''w4'', mk_word ''w4'' ''red'' ''kirmizi'' ''B1'')]"

definition repo2 :: words where
  "repo2 =
     [(''w1'', mk_word ''w1'' ''big'' ''buyuk'' ''B1''),
      (''w2'', mk_word ''w2'' ''large'' ''buyuk'' ''B1''),
      (''w3'', mk_word ''w3'' ''small'' ''kucuk'' ''B1''),
      (''w4'', mk_word ''w4'' ''red'' ''kirmizi'' ''B1''),
      (''w5'', mk_word ''w5'' ''blue'' ''mavi'' ''A1''),
      (''w6'', mk_word ''w6'' ''green'' ''yesil'' ''A1'')]"

text \<open>
  A state as the program starts with, holding one word, and the same state as a replace
  import of a file without \<^verbatim>\<open>appStats\<close> leaves it.
\<close>

definition state1 :: state where
  "state1 =
     \<lparr>words = repo1,
      appStats = Some \<lparr>totalAdded = 1, totalLearned = 0, favoritesCount = 0, hardCount = 0,
                        streak = \<lparr>current = 0, best = 0, lastActive = None\<rparr>\<rparr>\<rparr>"

definition state_without_appStats :: state where
  "state_without_appStats = \<lparr>words = repo1, appStats = None\<rparr>"

text \<open>Two backup files, of which the model keeps the words.\<close>

definition file1 :: state where
  "file1 = \<lparr>words = [(''w2'', mk_word ''w2'' ''Apple'' ''meyve'' ''B1'')], appStats = None\<rparr>"

definition file3 :: state where
  "file3 =
     \<lparr>words = [(''w2'', mk_word ''w2'' ''Apple'' ''ELMA'' ''B1''),
               (''w3'', mk_word ''w3'' ''pear'' ''armut'' ''A1''),
               (''w4'', mk_word ''w4'' ''PEAR'' ''Armut'' ''A2'')],
      appStats = None\<rparr>"

section \<open>Properties of the listing of the words\<close>

lemma set_values_of: "set (values_of ws) = snd ` set ws"
proof -
  have "set (filter (\<lambda>p. arrayIndex (fst p) \<noteq> None) ws) \<union>
        set (filter (\<lambda>p. arrayIndex (fst p) = None) ws) = set ws"
    by auto
  then have "snd ` set ws =
      snd ` set (filter (\<lambda>p. arrayIndex (fst p) \<noteq> None) ws) \<union>
      snd ` set (filter (\<lambda>p. arrayIndex (fst p) = None) ws)"
    by (metis image_Un)
  then show ?thesis by (simp add: values_of_def)
qed

lemma length_values_of: "length (values_of ws) = length ws"
  using sum_length_filter_compl [of "\<lambda>p. arrayIndex (fst p) \<noteq> None" ws]
  by (simp add: values_of_def)

lemma map_of_in_values: "map_of ws k = Some w \<Longrightarrow> w \<in> set (values_of ws)"
  unfolding set_values_of by (metis map_of_SomeD snd_conv image_eqI)

lemma snd_set_update: "snd ` set (AList.update k v ws) \<subseteq> insert v (snd ` set ws)"
  by (induction ws) auto

lemma values_of_update:
  "set (values_of (AList.update k v ws)) \<subseteq> insert v (set (values_of ws))"
  unfolding set_values_of by (rule snd_set_update)

section \<open>Properties of the review scheduler\<close>

lemma map_of_updateWordStats:
  "map_of ws wid = Some w \<Longrightarrow>
   map_of (updateWordStats z now ws wid c) wid =
     Some (w\<lparr>stats := stats_after_answer z now (stats w) c\<rparr>)"
  by (simp add: updateWordStats_def update_conv')

lemma map_of_toggleLearned:
  "map_of ws wid = Some w \<Longrightarrow>
   map_of (toggleLearned ws wid) wid = Some (w\<lparr>stats := (stats w)\<lparr>learned := \<not> learned (stats w)\<rparr>\<rparr>)"
  by (simp add: toggleLearned_def update_conv')

lemma map_of_answers:
  "map_of ws wid = Some w \<Longrightarrow>
   map_of (answers z ws wid xs) wid = Some (w\<lparr>stats := stats_run z (stats w) xs\<rparr>)"
proof (induction xs arbitrary: ws w)
  case Nil
  then show ?case by simp
next
  case (Cons x xs)
  obtain now c where x: "x = (now, c)" by (cases x)
  from Cons.prems have "map_of (updateWordStats z now ws wid c) wid
      = Some (w\<lparr>stats := stats_after_answer z now (stats w) c\<rparr>)"
    by (rule map_of_updateWordStats)
  from Cons.IH [OF this] show ?case by (simp add: x)
qed

lemma repo1_w1: "map_of repo1 ''w1'' = Some (mk_word ''w1'' ''apple'' ''elma'' ''B1'')"
  by (simp add: repo1_def)

lemma repo1_learned:
  "map_of (toggleLearned repo1 ''w1'') ''w1'' =
     Some ((mk_word ''w1'' ''apple'' ''elma'' ''B1'')\<lparr>stats := (new_stats 0)\<lparr>learned := True\<rparr>\<rparr>)"
  by (simp add: repo1_def toggleLearned_def mk_word_def new_stats_def)

lemma saa_fields:
  "correctCount (stats_after_answer z now st True) = correctCount st + 1"
  "wrongCount (stats_after_answer z now st True) = wrongCount st"
  "timesTested (stats_after_answer z now st c) = timesTested st + 1"
  "lastTested (stats_after_answer z now st c) = Some now"
  "difficultyScore (stats_after_answer z now st True) = max 0 (difficultyScore st - 1)"
  "correctCount (stats_after_answer z now st False) = correctCount st"
  "wrongCount (stats_after_answer z now st False) = wrongCount st + 1"
  "difficultyScore (stats_after_answer z now st False) = difficultyScore st + 2"
  "nextReviewDate (stats_after_answer z now st False) = plusDays z now 1"
  by (simp_all add: stats_after_answer_def Let_def)

lemma stats_run_snoc:
  "stats_run z st (xs @ [(now, c)]) = stats_after_answer z now (stats_run z st xs) c"
  by (induction z st xs rule: stats_run.induct) simp_all

lemma stats_run_all_correct:
  "correctCount (stats_run z st (map (\<lambda>t. (t, True)) ts)) = correctCount st + int (length ts) \<and>
   wrongCount (stats_run z st (map (\<lambda>t. (t, True)) ts)) = wrongCount st"
  by (induction ts arbitrary: st) (simp_all add: saa_fields)

lemma ladder_step:
  "nextReviewDate (stats_after_answer z now st True) =
     plusDays z now (intervals ! nat (min (max 0 (correctCount st - wrongCount st)) 5))"
  by (simp add: stats_after_answer_def Let_def intervals_def)

lemma ladder_index: "nat (min (int k) 5) = min k 5"
  by arith

lemma stats_run_ladder:
  assumes "correctCount st = 0" and "wrongCount st = 0" and "ts \<noteq> []"
  shows "lastTested (stats_run z st (map (\<lambda>t. (t, True)) ts)) = Some (last ts) \<and>
         nextReviewDate (stats_run z st (map (\<lambda>t. (t, True)) ts)) =
           plusDays z (last ts) (intervals ! min (length ts - 1) 5)"
proof -
  from \<open>ts \<noteq> []\<close> obtain us t where ts: "ts = us @ [t]"
    by (cases ts rule: rev_cases) auto
  let ?st = "stats_run z st (map (\<lambda>t. (t, True)) us)"
  have run: "stats_run z st (map (\<lambda>t. (t, True)) ts) = stats_after_answer z t ?st True"
    by (simp add: ts stats_run_snoc)
  have cnt: "correctCount ?st - wrongCount ?st = int (length us)"
    using stats_run_all_correct [of z st us] assms by simp
  have shape: "last ts = t" "length ts - 1 = length us"
    by (simp_all add: ts)
  show ?thesis
    unfolding run shape by (simp add: ladder_step cnt ladder_index saa_fields)
qed

lemma plusDays_elapsed:
  "plusDays z d n =
     d + n * msPerDay - (offsetAtLocal z (LocalTime z d + n * msPerDay) - offsetAtUTC z d)"
  by (simp add: plusDays_def UTC_time_def LocalTime_def)

lemma plusDays_local:
  "offsetAtUTC z (plusDays z d n) = offsetAtLocal z (LocalTime z d + n * msPerDay) \<Longrightarrow>
   LocalTime z (plusDays z d n) = LocalTime z d + n * msPerDay"
  by (simp add: plusDays_def UTC_time_def LocalTime_def)

lemma plusDays_fixed_zone: "plusDays (fixed_zone tz) d n = addDays d n"
  by (simp add: plusDays_def UTC_time_def LocalTime_def fixed_zone_def addDays_def)

lemma local_day_fixed_zone: "LocalTime (fixed_zone tz) d div msPerDay = toDateString tz d"
  by (simp add: LocalTime_def fixed_zone_def toDateString_def)

lemma saa_learned:
  "learned (stats_after_answer z now st c) \<longleftrightarrow>
     learned st \<or> (correctCount (stats_after_answer z now st c) \<ge> 5 \<and>
                    wrongCount (stats_after_answer z now st c) = 0)"
  by (auto simp add: stats_after_answer_def Let_def)

lemma stats_run_learned: "learned st \<Longrightarrow> learned (stats_run z st xs)"
  by (induction z st xs rule: stats_run.induct) (simp_all add: saa_learned)

lemma stats_run_invariant:
  "timesTested st = correctCount st + wrongCount st \<Longrightarrow> 0 \<le> correctCount st \<Longrightarrow>
   0 \<le> wrongCount st \<Longrightarrow>
   timesTested (stats_run z st xs) = correctCount (stats_run z st xs) + wrongCount (stats_run z st xs) \<and>
   0 \<le> correctCount (stats_run z st xs) \<and> 0 \<le> wrongCount (stats_run z st xs)"
proof (induction z st xs rule: stats_run.induct)
  case (1 z st)
  then show ?case by simp
next
  case (2 z st now c rest)
  then show ?case by (cases c) (simp_all add: saa_fields)
qed

lemma saa_monotone:
  "timesTested st \<le> timesTested (stats_after_answer z now st c) \<and>
   correctCount st \<le> correctCount (stats_after_answer z now st c) \<and>
   wrongCount st \<le> wrongCount (stats_after_answer z now st c)"
  by (cases c) (simp_all add: saa_fields)

text \<open>
  C2, as stated: a correct answer sets \<open>nextReviewDate\<close> to the time of the call plus
  \<open>intervals[...]\<close> days. In New York, for a first correct answer given at noon of
  9 March 2024, the day before daylight saving time begins, the ladder gives one day
  and the stored date is noon of 10 March, 23 hours after the call, not 24.
\<close>

theorem correct_answer_across_dst_counterexample:
  "map_option (correctCount \<circ> stats)
     (map_of (updateWordStats new_york 1710003600000 repo1 ''w1'' True) ''w1'') = Some 1 \<and>
   map_option (wrongCount \<circ> stats)
     (map_of (updateWordStats new_york 1710003600000 repo1 ''w1'' True) ''w1'') = Some 0 \<and>
   map_option (nextReviewDate \<circ> stats)
     (map_of (updateWordStats new_york 1710003600000 repo1 ''w1'' True) ''w1'')
     = Some (1710003600000 + 23 * 3600000) \<and>
   1710003600000 + 23 * 3600000 \<noteq> 1710003600000 + 1 * msPerDay"
  by code_simp

text \<open>
  C2, amended. A correct answer recorded by \<^verbatim>\<open>updateWordStats\<close> increments
  \<open>correctCount\<close>, leaves \<open>wrongCount\<close>, lowers \<open>difficultyScore\<close> by one but not below
  zero, and sets \<open>nextReviewDate\<close> to the time of the call moved by
  \<open>intervals[clamp(correctCount - wrongCount - 1, 0, 5)]\<close> local calendar days, the
  counters being those after the call. A word with no correct and no wrong answer so
  far that is then answered correctly \<open>k \<ge> 1\<close> times in a row is due
  1, 3, 7, 14, 30, 90, 90, ... local calendar days after its last answer. Moving a
  time by \<open>n\<close> local calendar days is \<open>n\<close> times 24 hours less the change of the offset
  of the zone between the two ends: exactly \<open>n\<close> times 24 hours when the offset is the
  same at both, and the same reading of the local clock \<open>n\<close> dates later when that
  reading exists in the zone.
\<close>

theorem updateWordStats_correct_answer:
  assumes "map_of ws wid = Some w"
  shows "(\<exists>w'. map_of (updateWordStats z now ws wid True) wid = Some w' \<and>
            correctCount (stats w') = correctCount (stats w) + 1 \<and>
            wrongCount (stats w') = wrongCount (stats w) \<and>
            difficultyScore (stats w') = max 0 (difficultyScore (stats w) - 1) \<and>
            nextReviewDate (stats w') =
              plusDays z now ([1, 3, 7, 14, 30, 90] !
                 nat (min (max 0 (correctCount (stats w') - wrongCount (stats w') - 1)) 5))) \<and>
         (correctCount (stats w) = 0 \<and> wrongCount (stats w) = 0 \<and> ts \<noteq> [] \<longrightarrow>
            (\<exists>w'. map_of (answers z ws wid (map (\<lambda>t. (t, True)) ts)) wid = Some w' \<and>
               lastTested (stats w') = Some (last ts) \<and>
               nextReviewDate (stats w') =
                 plusDays z (last ts) ([1, 3, 7, 14, 30, 90] ! min (length ts - 1) 5))) \<and>
         plusDays z d n =
           d + n * msPerDay - (offsetAtLocal z (LocalTime z d + n * msPerDay) - offsetAtUTC z d) \<and>
         (offsetAtLocal z (LocalTime z d + n * msPerDay) = offsetAtUTC z d \<longrightarrow>
            plusDays z d n = d + n * msPerDay) \<and>
         (offsetAtUTC z (plusDays z d n) = offsetAtLocal z (LocalTime z d + n * msPerDay) \<longrightarrow>
            LocalTime z (plusDays z d n) = LocalTime z d + n * msPerDay)"
proof (intro conjI impI)
  show "\<exists>w'. map_of (updateWordStats z now ws wid True) wid = Some w' \<and>
            correctCount (stats w') = correctCount (stats w) + 1 \<and>
            wrongCount (stats w') = wrongCount (stats w) \<and>
            difficultyScore (stats w') = max 0 (difficultyScore (stats w) - 1) \<and>
            nextReviewDate (stats w') =
              plusDays z now ([1, 3, 7, 14, 30, 90] !
                 nat (min (max 0 (correctCount (stats w') - wrongCount (stats w') - 1)) 5))"
    using map_of_updateWordStats [OF assms, of z now True]
    by (simp add: saa_fields ladder_step intervals_def)
next
  assume fresh: "correctCount (stats w) = 0 \<and> wrongCount (stats w) = 0 \<and> ts \<noteq> []"
  then show "\<exists>w'. map_of (answers z ws wid (map (\<lambda>t. (t, True)) ts)) wid = Some w' \<and>
               lastTested (stats w') = Some (last ts) \<and>
               nextReviewDate (stats w') =
                 plusDays z (last ts) ([1, 3, 7, 14, 30, 90] ! min (length ts - 1) 5)"
    using map_of_answers [OF assms, of z "map (\<lambda>t. (t, True)) ts"]
      stats_run_ladder [of "stats w" ts z]
    by (simp add: intervals_def)
next
  show "plusDays z d n =
           d + n * msPerDay - (offsetAtLocal z (LocalTime z d + n * msPerDay) - offsetAtUTC z d)"
    by (rule plusDays_elapsed)
next
  assume "offsetAtLocal z (LocalTime z d + n * msPerDay) = offsetAtUTC z d"
  then show "plusDays z d n = d + n * msPerDay"
    by (simp add: plusDays_elapsed)
next
  assume "offsetAtUTC z (plusDays z d n) = offsetAtLocal z (LocalTime z d + n * msPerDay)"
  then show "LocalTime z (plusDays z d n) = LocalTime z d + n * msPerDay"
    by (rule plusDays_local)
qed

theorem updateWordStats_correct_answer_witness:
  "map_of repo1 ''w1'' = Some (mk_word ''w1'' ''apple'' ''elma'' ''B1'') \<and>
   correctCount (stats (mk_word ''w1'' ''apple'' ''elma'' ''B1'')) = 0 \<and>
   wrongCount (stats (mk_word ''w1'' ''apple'' ''elma'' ''B1'')) = 0 \<and>
   [10, 20, 30 :: int] \<noteq> [] \<and>
   (\<exists>w'. map_of (updateWordStats new_york 1710003600000 repo1 ''w1'' True) ''w1'' = Some w' \<and>
      correctCount (stats w') = 1 \<and> difficultyScore (stats w') = 0 \<and>
      nextReviewDate (stats w') = plusDays new_york 1710003600000 1) \<and>
   (\<exists>w'. map_of (answers new_york repo1 ''w1'' [(10, True), (20, True), (30, True)]) ''w1''
            = Some w' \<and>
      lastTested (stats w') = Some 30 \<and>
      nextReviewDate (stats w') = 30 + 7 * 86400000) \<and>
   offsetAtLocal new_york (LocalTime new_york 30 + 7 * msPerDay) = offsetAtUTC new_york 30 \<and>
   plusDays new_york 30 7 = 30 + 7 * msPerDay \<and>
   offsetAtUTC new_york (plusDays new_york 1710003600000 1)
     = offsetAtLocal new_york (LocalTime new_york 1710003600000 + 1 * msPerDay) \<and>
   LocalTime new_york (plusDays new_york 1710003600000 1)
     = LocalTime new_york 1710003600000 + 1 * msPerDay \<and>
   plusDays new_york 1710003600000 1 = 1710003600000 + 1 * msPerDay - 3600000"
proof -
  have h1: "correctCount (stats (mk_word ''w1'' ''apple'' ''elma'' ''B1'')) = 0"
    "wrongCount (stats (mk_word ''w1'' ''apple'' ''elma'' ''B1'')) = 0"
    by (simp_all add: mk_word_def new_stats_def)
  have h2: "offsetAtLocal new_york (LocalTime new_york 30 + 7 * msPerDay) = offsetAtUTC new_york 30"
    by (simp add: new_york_def LocalTime_def msPerDay_def)
  have h3: "offsetAtUTC new_york (plusDays new_york 1710003600000 1)
     = offsetAtLocal new_york (LocalTime new_york 1710003600000 + 1 * msPerDay)"
    by (simp add: new_york_def LocalTime_def UTC_time_def plusDays_def msPerDay_def)
  have h4: "offsetAtLocal new_york (LocalTime new_york 1710003600000 + 1 * msPerDay)
      - offsetAtUTC new_york 1710003600000 = 3600000"
    by (simp add: new_york_def LocalTime_def msPerDay_def)
  note a = updateWordStats_correct_answer
    [OF repo1_w1, of new_york 1710003600000 "[10, 20, 30]" 1710003600000 1]
  note b = updateWordStats_correct_answer
    [OF repo1_w1, of new_york 1710003600000 "[10, 20, 30]" 30 7]
  from a h1 have first: "\<exists>w'. map_of (updateWordStats new_york 1710003600000 repo1 ''w1'' True) ''w1''
       = Some w' \<and>
      correctCount (stats w') = 1 \<and> difficultyScore (stats w') = 0 \<and>
      nextReviewDate (stats w') = plusDays new_york 1710003600000 1"
    by (auto simp add: mk_word_def new_stats_def)
  from b h2 have seven: "plusDays new_york 30 7 = 30 + 7 * msPerDay"
    by blast
  from a h1 seven have run: "\<exists>w'. map_of (answers new_york repo1 ''w1''
        [(10, True), (20, True), (30, True)]) ''w1'' = Some w' \<and>
      lastTested (stats w') = Some 30 \<and>
      nextReviewDate (stats w') = 30 + 7 * 86400000"
    by (simp add: msPerDay_def)
  from a h3 have local: "LocalTime new_york (plusDays new_york 1710003600000 1)
     = LocalTime new_york 1710003600000 + 1 * msPerDay"
    by blast
  from a h4 have hours: "plusDays new_york 1710003600000 1 = 1710003600000 + 1 * msPerDay - 3600000"
    by simp
  from repo1_w1 h1 first run h2 seven h3 local hours show ?thesis by simp
qed

text \<open>
  C3, as stated: a wrong answer sets \<open>nextReviewDate\<close> to exactly one day after the
  time of the call. In New York, for a wrong answer given at noon of 9 March 2024, the
  stored date is noon of 10 March, 23 hours after the call.
\<close>

theorem wrong_answer_across_dst_counterexample:
  "map_option (nextReviewDate \<circ> stats)
     (map_of (updateWordStats new_york 1710003600000 repo1 ''w1'' False) ''w1'')
     = Some (1710003600000 + 23 * 3600000) \<and>
   1710003600000 + 23 * 3600000 \<noteq> 1710003600000 + 1 * msPerDay"
  by code_simp

text \<open>
  C3, amended. A wrong answer recorded by \<^verbatim>\<open>updateWordStats\<close> increments \<open>wrongCount\<close>,
  adds exactly 2 to \<open>difficultyScore\<close> and sets \<open>nextReviewDate\<close> to the time of the call
  moved by exactly one local calendar day, whatever the word's earlier score and
  counters: that is 24 hours less the change of the offset of the zone between the
  two ends, so exactly 24 hours later when the offset is the same at both, and the
  same reading of the local clock on the next date when that reading exists in the
  zone.
\<close>

theorem updateWordStats_wrong_answer:
  assumes "map_of ws wid = Some w"
  shows "(\<exists>w'. map_of (updateWordStats z now ws wid False) wid = Some w' \<and>
            wrongCount (stats w') = wrongCount (stats w) + 1 \<and>
            difficultyScore (stats w') = difficultyScore (stats w) + 2 \<and>
            nextReviewDate (stats w') = plusDays z now 1) \<and>
         plusDays z now 1 =
           now + 1 * msPerDay - (offsetAtLocal z (LocalTime z now + 1 * msPerDay) - offsetAtUTC z now) \<and>
         (offsetAtLocal z (LocalTime z now + 1 * msPerDay) = offsetAtUTC z now \<longrightarrow>
            plusDays z now 1 = now + 1 * msPerDay) \<and>
         (offsetAtUTC z (plusDays z now 1) = offsetAtLocal z (LocalTime z now + 1 * msPerDay) \<longrightarrow>
            LocalTime z (plusDays z now 1) = LocalTime z now + 1 * msPerDay)"
proof (intro conjI impI)
  show "\<exists>w'. map_of (updateWordStats z now ws wid False) wid = Some w' \<and>
            wrongCount (stats w') = wrongCount (stats w) + 1 \<and>
            difficultyScore (stats w') = difficultyScore (stats w) + 2 \<and>
            nextReviewDate (stats w') = plusDays z now 1"
    using map_of_updateWordStats [OF assms, of z now False] by (simp add: saa_fields)
next
  show "plusDays z now 1 =
      now + 1 * msPerDay - (offsetAtLocal z (LocalTime z now + 1 * msPerDay) - offsetAtUTC z now)"
    by (rule plusDays_elapsed)
next
  assume "offsetAtLocal z (LocalTime z now + 1 * msPerDay) = offsetAtUTC z now"
  then show "plusDays z now 1 = now + 1 * msPerDay"
    by (simp add: plusDays_elapsed)
next
  assume "offsetAtUTC z (plusDays z now 1) = offsetAtLocal z (LocalTime z now + 1 * msPerDay)"
  then show "LocalTime z (plusDays z now 1) = LocalTime z now + 1 * msPerDay"
    by (rule plusDays_local)
qed

theorem updateWordStats_wrong_answer_witness:
  "map_of repo1 ''w1'' = Some (mk_word ''w1'' ''apple'' ''elma'' ''B1'') \<and>
   (\<exists>w'. map_of (updateWordStats new_york 1000 repo1 ''w1'' False) ''w1'' = Some w' \<and>
      wrongCount (stats w') = 1 \<and> difficultyScore (stats w') = 2 \<and>
      nextReviewDate (stats w') = 1000 + 86400000) \<and>
   offsetAtLocal new_york (LocalTime new_york 1000 + 1 * msPerDay) = offsetAtUTC new_york 1000 \<and>
   plusDays new_york 1000 1 = 1000 + 1 * msPerDay \<and>
   offsetAtUTC new_york (plusDays new_york 1710003600000 1)
     = offsetAtLocal new_york (LocalTime new_york 1710003600000 + 1 * msPerDay) \<and>
   LocalTime new_york (plusDays new_york 1710003600000 1)
     = LocalTime new_york 1710003600000 + 1 * msPerDay"
proof -
  have h2: "offsetAtLocal new_york (LocalTime new_york 1000 + 1 * msPerDay) = offsetAtUTC new_york 1000"
    by (simp add: new_york_def LocalTime_def msPerDay_def)
  have h3: "offsetAtUTC new_york (plusDays new_york 1710003600000 1)
     = offsetAtLocal new_york (LocalTime new_york 1710003600000 + 1 * msPerDay)"
    by (simp add: new_york_def LocalTime_def UTC_time_def plusDays_def msPerDay_def)
  note a = updateWordStats_wrong_answer [OF repo1_w1, of new_york 1000]
  note b = updateWordStats_wrong_answer [OF repo1_w1, of new_york 1710003600000]
  from a h2 have day: "plusDays new_york 1000 1 = 1000 + 1 * msPerDay"
    by blast
  from a day have first: "\<exists>w'. map_of (updateWordStats new_york 1000 repo1 ''w1'' False) ''w1'' = Some w' \<and>
      wrongCount (stats w') = 1 \<and> difficultyScore (stats w') = 2 \<and>
      nextReviewDate (stats w') = 1000 + 86400000"
    by (auto simp add: mk_word_def new_stats_def msPerDay_def)
  from b h3 have local: "LocalTime new_york (plusDays new_york 1710003600000 1)
     = LocalTime new_york 1710003600000 + 1 * msPerDay"
    by blast
  from repo1_w1 first h2 day h3 local show ?thesis by simp
qed

lemma map_of_map_values:
  "map_of (map (\<lambda>(k, w). (k, f w)) ws) wid = map_option f (map_of ws wid)"
  by (induction ws) auto

lemma map_of_reset_learned:
  "map_of ws wid = Some w \<Longrightarrow>
   map_of (reset_learned True ws) wid = Some (w\<lparr>stats := (stats w)\<lparr>learned := False\<rparr>\<rparr>)"
  by (simp add: reset_learned_def map_of_map_values)

lemma map_of_reset_stats:
  "map_of ws wid = Some w \<Longrightarrow>
   map_of (reset_stats True ws) wid =
     Some (w\<lparr>stats := (stats w)\<lparr>timesTested := 0, correctCount := 0, wrongCount := 0,
              lastTested := None, difficultyScore := 0, learned := False\<rparr>\<rparr>)"
  by (simp add: reset_stats_def map_of_map_values)

lemma updateWordStats_other:
  "k \<noteq> wid \<Longrightarrow> map_of (updateWordStats z now ws k c) wid = map_of ws wid"
  by (simp add: updateWordStats_def update_conv' split: option.splits)

lemma toggleLearned_other:
  "k \<noteq> wid \<Longrightarrow> map_of (toggleLearned ws k) wid = map_of ws wid"
  by (simp add: toggleLearned_def update_conv' split: option.splits)

lemma deleteWord_lookup:
  "map_of (deleteWord ws k) wid = Some w' \<Longrightarrow> map_of ws wid = Some w'"
  by (auto simp add: deleteWord_def delete_conv' split: option.splits if_splits)

lemma toggleFavorite_lookup:
  "map_of ws wid = Some w \<Longrightarrow> map_of (toggleFavorite ws k) wid = Some w' \<Longrightarrow>
   stats w' = stats w"
  by (cases "k = wid") (auto simp add: toggleFavorite_def update_conv' split: option.splits)

lemma merge_words_lookup:
  "map_of (fst (merge_words g ws xs merged skipped)) wid = Some w' \<Longrightarrow>
   map_of ws wid = Some w' \<or> w' \<in> set xs"
proof (induction g ws xs merged skipped rule: merge_words.induct)
  case (1 g ws merged skipped)
  then show ?case by simp
next
  case (2 g ws word rest merged skipped)
  show ?case
  proof (cases "find_r (\<lambda>w. merge_match g w word) (values_of ws)")
    case (Inl e)
    with "2.prems" show ?thesis by simp
  next
    case (Inr r)
    show ?thesis
    proof (cases r)
      case None
      with Inr "2.prems" have
        "map_of (fst (merge_words g (AList.update (id_w word) word ws) rest (merged + 1) skipped)) wid
           = Some w'"
        by simp
      from "2.IH"(1) [OF Inr None this]
      have "map_of (AList.update (id_w word) word ws) wid = Some w' \<or> w' \<in> set rest" .
      then show ?thesis
        by (cases "id_w word = wid") (auto simp add: update_conv')
    next
      case (Some a)
      with Inr "2.prems" have
        "map_of (fst (merge_words g ws rest merged (skipped + 1))) wid = Some w'"
        by simp
      from "2.IH"(2) [OF Inr Some this] show ?thesis by auto
    qed
  qed
qed

lemma answer_keeps_flag:
  assumes "map_of ws wid = Some w" and "learned (stats w)"
    and "map_of (updateWordStats z now ws k c) wid = Some w'"
  shows "learned (stats w')"
proof (cases "k = wid")
  case True
  from map_of_updateWordStats [OF assms(1), of z now c] assms(3)
  have "w' = w\<lparr>stats := stats_after_answer z now (stats w) c\<rparr>"
    unfolding True by simp
  then have "stats w' = stats_after_answer z now (stats w) c" by simp
  with assms(2) saa_learned [of z now "stats w" c] show ?thesis by simp
next
  case False
  from updateWordStats_other [OF False, of z now ws c] assms(1,3) have "w' = w" by simp
  with assms(2) show ?thesis by simp
qed

lemma other_toggle_keeps_flag:
  assumes "map_of ws wid = Some w" and "learned (stats w)" and "k \<noteq> wid"
    and "map_of (toggleLearned ws k) wid = Some w'"
  shows "learned (stats w')"
proof -
  from toggleLearned_other [OF assms(3), of ws] assms(1,4) have "w' = w" by simp
  with assms(2) show ?thesis by simp
qed

lemma other_add_keeps_flag:
  assumes "map_of ws wid = Some w" and "learned (stats w)" and "uuid \<noteq> wid"
    and "map_of (perform z g (AddWord uuid now d) ws) wid = Some w'"
  shows "learned (stats w')"
proof -
  have "map_of (perform z g (AddWord uuid now d) ws) wid = map_of ws wid"
    using assms(3) by (cases "new_word g uuid now d") (simp_all add: update_conv')
  with assms(1,4) have "w' = w" by simp
  with assms(2) show ?thesis by simp
qed

lemma delete_keeps_flag:
  assumes "map_of ws wid = Some w" and "learned (stats w)"
    and "map_of (deleteWord ws k) wid = Some w'"
  shows "learned (stats w')"
proof -
  from deleteWord_lookup [OF assms(3)] assms(1) have "w' = w" by simp
  with assms(2) show ?thesis by simp
qed

lemma update_keeps_flag:
  assumes "map_of ws wid = Some w" and "learned (stats w)"
    and "map_of (updateWord ws k patch) wid = Some w'"
  shows "learned (stats w')"
proof -
  from assms(1,3) have "stats w' = stats w"
    by (cases "k = wid") (auto simp add: updateWord_def update_conv' split: option.splits)
  with assms(2) show ?thesis by simp
qed

lemma favorite_keeps_flag:
  assumes "map_of ws wid = Some w" and "learned (stats w)"
    and "map_of (toggleFavorite ws k) wid = Some w'"
  shows "learned (stats w')"
  using toggleFavorite_lookup [OF assms(1,3)] assms(2) by simp

lemma import_keeps_or_replaces:
  assumes "map_of ws wid = Some w" and "learned (stats w)"
    and "map_of (perform z g (Import imported m) ws) wid = Some w'"
    and "\<not> learned (stats w')"
  shows "w' \<in> set (values_of imported)"
proof (cases m)
  case Replace
  with assms(3) have "map_of imported wid = Some w'" by simp
  then show ?thesis by (rule map_of_in_values)
next
  case Merge
  with assms(3) have
    "map_of (fst (merge_words g ws (values_of imported) 0 0)) wid = Some w'"
    by simp
  from merge_words_lookup [OF this] have "map_of ws wid = Some w' \<or> w' \<in> set (values_of imported)" .
  moreover have "map_of ws wid \<noteq> Some w'"
  proof
    assume "map_of ws wid = Some w'"
    with assms(1) have "w' = w" by simp
    with assms(2,4) show False by simp
  qed
  ultimately show ?thesis by blast
qed

lemma only_three_clear:
  assumes "map_of ws wid = Some w" and "learned (stats w)"
    and "map_of (perform z g op ws) wid = Some w'" and "\<not> learned (stats w')"
  shows "op = ToggleLearned wid \<or> op = ResetLearned True \<or> op = ResetStats True \<or>
         (\<exists>now d. op = AddWord wid now d) \<or>
         (\<exists>imported m. op = Import imported m \<and> w' \<in> set (values_of imported))"
proof (cases op)
  case (Answer now k c)
  with assms(3) have "map_of (updateWordStats z now ws k c) wid = Some w'" by simp
  from answer_keeps_flag [OF assms(1,2) this] assms(4) show ?thesis by blast
next
  case (ToggleLearned k)
  show ?thesis
  proof (cases "k = wid")
    case True
    with ToggleLearned show ?thesis by blast
  next
    case False
    from ToggleLearned assms(3) have "map_of (toggleLearned ws k) wid = Some w'" by simp
    from other_toggle_keeps_flag [OF assms(1,2) False this] assms(4) show ?thesis by blast
  qed
next
  case (ResetLearned b)
  show ?thesis
  proof (cases b)
    case True
    with ResetLearned show ?thesis by blast
  next
    case False
    with ResetLearned assms(3) have "map_of ws wid = Some w'" by (simp add: reset_learned_def)
    with assms(1) have "w' = w" by simp
    with assms(2,4) show ?thesis by blast
  qed
next
  case (ResetStats b)
  show ?thesis
  proof (cases b)
    case True
    with ResetStats show ?thesis by blast
  next
    case False
    with ResetStats assms(3) have "map_of ws wid = Some w'" by (simp add: reset_stats_def)
    with assms(1) have "w' = w" by simp
    with assms(2,4) show ?thesis by blast
  qed
next
  case (AddWord uuid now d)
  show ?thesis
  proof (cases "uuid = wid")
    case True
    with AddWord show ?thesis by blast
  next
    case False
    from other_add_keeps_flag [OF assms(1,2) False] assms(3,4) AddWord show ?thesis by blast
  qed
next
  case (Import imported m)
  from import_keeps_or_replaces [OF assms(1,2)] assms(3,4) Import show ?thesis by blast
next
  case (UpdateWord k patch)
  with assms(3) have "map_of (updateWord ws k patch) wid = Some w'" by simp
  from update_keeps_flag [OF assms(1,2) this] assms(4) show ?thesis by blast
next
  case (DeleteWord k)
  with assms(3) have "map_of (deleteWord ws k) wid = Some w'" by simp
  from delete_keeps_flag [OF assms(1,2) this] assms(4) show ?thesis by blast
next
  case (ToggleFavorite k)
  with assms(3) have "map_of (toggleFavorite ws k) wid = Some w'" by simp
  from favorite_keeps_flag [OF assms(1,2) this] assms(4) show ?thesis by blast
next
  case ClearAll
  with assms(3) show ?thesis by (simp add: clearAll_def)
qed

text \<open>
  C4, as stated: only the manual toggle clears the \<open>learned\<close> flag. A word that five
  correct answers have marked as learned loses the flag when the learned flags are
  reset in the settings.
\<close>

theorem reset_learned_clears_counterexample:
  "map_option (learned \<circ> stats)
     (map_of (answers new_york repo1 ''w1''
        [(1, True), (2, True), (3, True), (4, True), (5, True)]) ''w1'')
     = Some True \<and>
   map_option (learned \<circ> stats)
     (map_of (reset_learned True
        (answers new_york repo1 ''w1''
           [(1, True), (2, True), (3, True), (4, True), (5, True)])) ''w1'')
     = Some False"
  by code_simp

text \<open>
  C4, amended. A call of \<^verbatim>\<open>updateWordStats\<close> leaves \<open>learned\<close> true exactly when it was
  true before or \<open>correctCount \<ge> 5\<close> and \<open>wrongCount = 0\<close> hold after the call, so the
  call sets the flag exactly under that condition; once true the flag stays true
  through every later sequence of answers, correct or wrong. The flag of a stored
  word is cleared by the manual toggle \<^verbatim>\<open>toggleLearned\<close>, which negates it, by the
  reset of the learned flags and by the reset of the statistics, and by nothing else:
  whenever an operation on the repository (an answer, the toggle, a reset, \<^verbatim>\<open>addWord\<close>,
  an import, \<^verbatim>\<open>updateWord\<close>, \<^verbatim>\<open>deleteWord\<close>, \<^verbatim>\<open>toggleFavorite\<close>, the clearing of all
  data) leaves a word without the flag under the id of a word that had it, the
  operation is the toggle of that word or one of the two confirmed resets, or it is an
  \<^verbatim>\<open>addWord\<close> with that id or an import that has stored another record, one of the
  file, under that id. (Deleting the word and clearing all data leave no word under
  the id. That \<open>perform\<close> gives the repository after \<^verbatim>\<open>addWord\<close> and after
  \<^verbatim>\<open>importData\<close> is shown by the lemmas \<open>addWord_words\<close> and \<open>importData_words\<close>.)
\<close>

theorem learned_flag_monotone:
  assumes "map_of ws wid = Some w"
  shows "(\<exists>w'. map_of (updateWordStats z now ws wid c) wid = Some w' \<and>
            (learned (stats w') \<longleftrightarrow>
               learned (stats w) \<or> (correctCount (stats w') \<ge> 5 \<and> wrongCount (stats w') = 0))) \<and>
         (learned (stats w) \<longrightarrow>
            (\<exists>w'. map_of (answers z ws wid xs) wid = Some w' \<and> learned (stats w'))) \<and>
         (\<exists>w'. map_of (toggleLearned ws wid) wid = Some w' \<and>
            learned (stats w') = (\<not> learned (stats w))) \<and>
         (\<exists>w'. map_of (reset_learned True ws) wid = Some w' \<and> \<not> learned (stats w')) \<and>
         (\<exists>w'. map_of (reset_stats True ws) wid = Some w' \<and> \<not> learned (stats w')) \<and>
         (\<forall>op w'. learned (stats w) \<and> map_of (perform z g op ws) wid = Some w' \<and>
              \<not> learned (stats w') \<longrightarrow>
            op = ToggleLearned wid \<or> op = ResetLearned True \<or> op = ResetStats True \<or>
            (\<exists>t d. op = AddWord wid t d) \<or>
            (\<exists>imported m. op = Import imported m \<and> w' \<in> set (values_of imported)))"
proof (intro conjI impI allI)
  show "\<exists>w'. map_of (updateWordStats z now ws wid c) wid = Some w' \<and>
            (learned (stats w') \<longleftrightarrow>
               learned (stats w) \<or> (correctCount (stats w') \<ge> 5 \<and> wrongCount (stats w') = 0))"
    using map_of_updateWordStats [OF assms, of z now c] saa_learned [of z now "stats w" c]
    by simp
next
  assume "learned (stats w)"
  then show "\<exists>w'. map_of (answers z ws wid xs) wid = Some w' \<and> learned (stats w')"
    using map_of_answers [OF assms, of z xs] by (simp add: stats_run_learned)
next
  show "\<exists>w'. map_of (toggleLearned ws wid) wid = Some w' \<and>
            learned (stats w') = (\<not> learned (stats w))"
    using map_of_toggleLearned [OF assms] by simp
next
  show "\<exists>w'. map_of (reset_learned True ws) wid = Some w' \<and> \<not> learned (stats w')"
    using map_of_reset_learned [OF assms] by simp
next
  show "\<exists>w'. map_of (reset_stats True ws) wid = Some w' \<and> \<not> learned (stats w')"
    using map_of_reset_stats [OF assms] by simp
next
  fix op w'
  assume "learned (stats w) \<and> map_of (perform z g op ws) wid = Some w' \<and> \<not> learned (stats w')"
  then show "op = ToggleLearned wid \<or> op = ResetLearned True \<or> op = ResetStats True \<or>
            (\<exists>t d. op = AddWord wid t d) \<or>
            (\<exists>imported m. op = Import imported m \<and> w' \<in> set (values_of imported))"
    using only_three_clear [OF assms, of z g op w'] by blast
qed

theorem learned_flag_monotone_witness:
  "map_of (toggleLearned repo1 ''w1'') ''w1'' =
     Some ((mk_word ''w1'' ''apple'' ''elma'' ''B1'')\<lparr>stats := (new_stats 0)\<lparr>learned := True\<rparr>\<rparr>) \<and>
   learned (stats ((mk_word ''w1'' ''apple'' ''elma'' ''B1'')\<lparr>stats := (new_stats 0)\<lparr>learned := True\<rparr>\<rparr>)) \<and>
   (\<exists>w'. map_of (updateWordStats new_york 1000 (toggleLearned repo1 ''w1'') ''w1'' False) ''w1''
            = Some w' \<and>
      learned (stats w') \<and> wrongCount (stats w') = 1) \<and>
   (\<exists>w'. map_of (answers new_york (toggleLearned repo1 ''w1'') ''w1'' [(5, False), (6, True)]) ''w1''
            = Some w' \<and> learned (stats w')) \<and>
   (\<exists>w'. map_of (toggleLearned (toggleLearned repo1 ''w1'') ''w1'') ''w1'' = Some w' \<and>
      \<not> learned (stats w')) \<and>
   (\<exists>w'. map_of (reset_stats True (toggleLearned repo1 ''w1'')) ''w1'' = Some w' \<and>
      \<not> learned (stats w')) \<and>
   map_of (perform new_york ascii_engine (ResetLearned True) (toggleLearned repo1 ''w1'')) ''w1''
     = Some (mk_word ''w1'' ''apple'' ''elma'' ''B1'') \<and>
   \<not> learned (stats (mk_word ''w1'' ''apple'' ''elma'' ''B1''))"
proof -
  let ?w = "(mk_word ''w1'' ''apple'' ''elma'' ''B1'')\<lparr>stats := (new_stats 0)\<lparr>learned := True\<rparr>\<rparr>"
  have l: "learned (stats ?w)" by simp
  have p: "map_of (perform new_york ascii_engine (ResetLearned True) (toggleLearned repo1 ''w1'')) ''w1''
     = Some (mk_word ''w1'' ''apple'' ''elma'' ''B1'')"
    using map_of_reset_learned [OF repo1_learned] by (simp add: mk_word_def new_stats_def)
  have n: "\<not> learned (stats (mk_word ''w1'' ''apple'' ''elma'' ''B1''))"
    by (simp add: mk_word_def new_stats_def)
  note a = learned_flag_monotone [OF repo1_learned, of new_york 1000 False "[(5, False), (6, True)]"
      ascii_engine]
  from a have first: "\<exists>w'. map_of (updateWordStats new_york 1000 (toggleLearned repo1 ''w1'') ''w1'' False)
        ''w1'' = Some w' \<and> learned (stats w') \<and> wrongCount (stats w') = 1"
    using map_of_updateWordStats [OF repo1_learned, of new_york 1000 False]
    by (simp add: saa_fields saa_learned mk_word_def new_stats_def)
  from a l have run: "\<exists>w'. map_of (answers new_york (toggleLearned repo1 ''w1'') ''w1''
        [(5, False), (6, True)]) ''w1'' = Some w' \<and> learned (stats w')"
    by blast
  from a have tog: "\<exists>w'. map_of (toggleLearned (toggleLearned repo1 ''w1'') ''w1'') ''w1'' = Some w' \<and>
      \<not> learned (stats w')"
    by simp
  from a have rst: "\<exists>w'. map_of (reset_stats True (toggleLearned repo1 ''w1'')) ''w1'' = Some w' \<and>
      \<not> learned (stats w')"
    by blast
  from repo1_learned l first run tog rst p n show ?thesis by blast
qed

text \<open>
  C5. For a word whose three counters are 0, as \<^verbatim>\<open>addWord\<close> creates it, after every
  sequence of \<^verbatim>\<open>updateWordStats\<close> calls \<open>timesTested = correctCount + wrongCount\<close> holds
  and no counter is negative; and from every such state one more call, correct or
  wrong, lowers none of the three counters.
\<close>

theorem counters_invariant:
  assumes "map_of ws wid = Some w"
    and "timesTested (stats w) = 0" and "correctCount (stats w) = 0"
    and "wrongCount (stats w) = 0"
  shows "\<exists>w'. map_of (answers z ws wid xs) wid = Some w' \<and>
           timesTested (stats w') = correctCount (stats w') + wrongCount (stats w') \<and>
           0 \<le> timesTested (stats w') \<and> 0 \<le> correctCount (stats w') \<and>
           0 \<le> wrongCount (stats w') \<and>
           (\<forall>now c. \<exists>w''. map_of (updateWordStats z now (answers z ws wid xs) wid c) wid = Some w'' \<and>
              timesTested (stats w') \<le> timesTested (stats w'') \<and>
              correctCount (stats w') \<le> correctCount (stats w'') \<and>
              wrongCount (stats w') \<le> wrongCount (stats w''))"
proof -
  let ?w = "w\<lparr>stats := stats_run z (stats w) xs\<rparr>"
  have run: "map_of (answers z ws wid xs) wid = Some ?w"
    using assms(1) by (rule map_of_answers)
  have inv: "timesTested (stats ?w) = correctCount (stats ?w) + wrongCount (stats ?w) \<and>
      0 \<le> correctCount (stats ?w) \<and> 0 \<le> wrongCount (stats ?w)"
    using stats_run_invariant [of "stats w" z xs] assms(2-4) by simp
  have step: "\<exists>w''. map_of (updateWordStats z now (answers z ws wid xs) wid c) wid = Some w'' \<and>
              timesTested (stats ?w) \<le> timesTested (stats w'') \<and>
              correctCount (stats ?w) \<le> correctCount (stats w'') \<and>
              wrongCount (stats ?w) \<le> wrongCount (stats w'')" for now c
    using map_of_updateWordStats [OF run, of z now c]
      saa_monotone [of "stats_run z (stats w) xs" z now c] by simp
  from run inv step show ?thesis by auto
qed

theorem counters_invariant_witness:
  "map_of repo1 ''w1'' = Some (mk_word ''w1'' ''apple'' ''elma'' ''B1'') \<and>
   timesTested (stats (mk_word ''w1'' ''apple'' ''elma'' ''B1'')) = 0 \<and>
   correctCount (stats (mk_word ''w1'' ''apple'' ''elma'' ''B1'')) = 0 \<and>
   wrongCount (stats (mk_word ''w1'' ''apple'' ''elma'' ''B1'')) = 0 \<and>
   (\<exists>w'. map_of (answers new_york repo1 ''w1'' [(1, True), (2, False), (3, True)]) ''w1'' = Some w' \<and>
      timesTested (stats w') = 3 \<and> correctCount (stats w') = 2 \<and> wrongCount (stats w') = 1)"
proof -
  have z: "timesTested (stats (mk_word ''w1'' ''apple'' ''elma'' ''B1'')) = 0"
    "correctCount (stats (mk_word ''w1'' ''apple'' ''elma'' ''B1'')) = 0"
    "wrongCount (stats (mk_word ''w1'' ''apple'' ''elma'' ''B1'')) = 0"
    by (simp_all add: mk_word_def new_stats_def)
  have r: "map_of (answers new_york repo1 ''w1'' [(1, True), (2, False), (3, True)]) ''w1''
      = Some ((mk_word ''w1'' ''apple'' ''elma'' ''B1'')
          \<lparr>stats := stats_run new_york (stats (mk_word ''w1'' ''apple'' ''elma'' ''B1''))
             [(1, True), (2, False), (3, True)]\<rparr>)"
    using repo1_w1 by (rule map_of_answers)
  from counters_invariant [OF repo1_w1 z, of new_york "[(1, True), (2, False), (3, True)]"] repo1_w1 z
  show ?thesis
    unfolding r by (simp add: saa_fields z)
qed

section \<open>Properties of the streak tracker\<close>












section \<open>Properties of the import merge\<close>

lemma is_JStr: "is_string v \<Longrightarrow> \<exists>s. v = JStr s"
  by (cases v) simp_all

lemma js_toLowerCase_text:
  assumes "has_text w"
  shows "\<exists>e t. js_toLowerCase g (english w) = Inr e \<and> js_toLowerCase g (turkish w) = Inr t"
proof -
  from assms obtain e t where "english w = JStr e" "turkish w = JStr t"
    unfolding has_text_def using is_JStr by blast
  then show ?thesis by simp
qed

lemma merge_match_text:
  assumes "has_text w" and "has_text word"
  shows "merge_match g w word = Inr (same_text g w word)"
proof -
  from js_toLowerCase_text [OF assms(1), of g] obtain e t where
    a: "js_toLowerCase g (english w) = Inr e" "js_toLowerCase g (turkish w) = Inr t"
    by blast
  from js_toLowerCase_text [OF assms(2), of g] obtain e' t' where
    b: "js_toLowerCase g (english word) = Inr e'" "js_toLowerCase g (turkish word) = Inr t'"
    by blast
  show ?thesis unfolding merge_match_def same_text_def a b by simp
qed

lemma find_r_total:
  assumes "\<forall>x\<in>set xs. p x = Inr (q x)"
  shows "find_r p xs = Inr (find q xs)"
  using assms by (induction xs) simp_all

lemma find_None_iff': "(find q xs = None) = (\<not> (\<exists>x\<in>set xs. q x))"
  by (induction xs) auto

lemma find_Some_holds: "find q xs = Some a \<Longrightarrow> a \<in> set xs \<and> q a"
  by (induction xs) (auto split: if_splits)

lemma merge_words_step:
  assumes "\<forall>w\<in>set (values_of ws). has_text w" and "has_text word"
  shows "merge_words g ws (word # rest) merged skipped =
           (if \<exists>w\<in>set (values_of ws). same_text g w word
            then merge_words g ws rest merged (skipped + 1)
            else merge_words g (AList.update (id_w word) word ws) rest (merged + 1) skipped)"
proof -
  have "find_r (\<lambda>w. merge_match g w word) (values_of ws)
          = Inr (find (\<lambda>w. same_text g w word) (values_of ws))"
    using assms by (intro find_r_total) (simp add: merge_match_text)
  then show ?thesis
    by (cases "find (\<lambda>w. same_text g w word) (values_of ws)")
       (auto simp add: find_None_iff' dest: find_Some_holds)
qed

lemma has_text_update:
  assumes "\<forall>w\<in>set (values_of ws). has_text w" and "has_text word"
  shows "\<forall>w\<in>set (values_of (AList.update k word ws)). has_text w"
  using values_of_update [of k word ws] assms by auto

lemma merge_words_foldl:
  assumes "\<forall>w\<in>set (values_of ws). has_text w" and "\<forall>w\<in>set imported. has_text w"
  shows "merge_words g ws imported merged skipped =
           (case foldl (skip_or_insert g) (ws, merged, skipped) imported of
              (ws', m, s) \<Rightarrow> (ws', Inr (m, s)))"
  using assms
proof (induction imported arbitrary: ws merged skipped)
  case Nil
  then show ?case by simp
next
  case (Cons word rest)
  then have w: "has_text word" and r: "\<forall>w\<in>set rest. has_text w" by simp_all
  note step = merge_words_step [OF Cons.prems(1) w, of g rest merged skipped]
  show ?case
  proof (cases "\<exists>w\<in>set (values_of ws). same_text g w word")
    case True
    then have "skip_or_insert g (ws, merged, skipped) word = (ws, merged, skipped + 1)"
      by (simp add: skip_or_insert_def list_ex_iff)
    with True step Cons.IH [OF Cons.prems(1) r, of merged "skipped + 1"] show ?thesis
      by simp
  next
    case False
    then have "skip_or_insert g (ws, merged, skipped) word
        = (AList.update (id_w word) word ws, merged + 1, skipped)"
      by (simp add: skip_or_insert_def list_ex_iff)
    with False step
      Cons.IH [OF has_text_update [OF Cons.prems(1) w] r, of "id_w word" "merged + 1" skipped]
    show ?thesis by simp
  qed
qed

lemma foldl_counts:
  "(case foldl (skip_or_insert g) (ws, merged, skipped) imported of
      (ws', m, s) \<Rightarrow> m + s = merged + skipped + length imported)"
proof (induction imported arbitrary: ws merged skipped)
  case Nil
  then show ?case by simp
next
  case (Cons word rest)
  show ?case
  proof (cases "list_ex (\<lambda>w. same_text g w word) (values_of ws)")
    case True
    with Cons [where ws = ws and merged = merged and skipped = "skipped + 1"] show ?thesis
      by (simp add: skip_or_insert_def)
  next
    case False
    with Cons [where ws = "AList.update (id_w word) word ws" and merged = "merged + 1"
        and skipped = skipped]
    show ?thesis
      by (simp add: skip_or_insert_def)
  qed
qed

lemma updateStats_words: "words (fst (updateStats hdr st)) = words st"
  by (simp add: updateStats_def Let_def split: option.splits)

lemma updateStats_returns:
  "appStats st \<noteq> None \<Longrightarrow> \<exists>st'. updateStats True st = (st', Inr ()) \<and> words st' = words st"
  by (auto simp add: updateStats_def Let_def)

lemma updateStats_raises:
  "appStats st = None \<or> \<not> hdr \<Longrightarrow>
   \<exists>st'. updateStats hdr st = (st', Inl TypeError) \<and> words st' = words st"
  by (auto simp add: updateStats_def Let_def split: option.splits)

lemma importData_words:
  "words (fst (importData g hdr st imported m)) = perform z g (Import (words imported) m) (words st)"
proof (cases m)
  case Replace
  have "fst (importData g hdr st imported Replace) = fst (updateStats hdr imported)"
    by (simp add: importData_def split: prod.splits sum.splits)
  then show ?thesis by (simp add: Replace updateStats_words)
next
  case Merge
  obtain ws' r where mw: "merge_words g (words st) (values_of (words imported)) 0 0 = (ws', r)"
    by (cases "merge_words g (words st) (values_of (words imported)) 0 0")
  show ?thesis
  proof (cases r)
    case (Inl e)
    with mw show ?thesis by (simp add: Merge importData_def)
  next
    case (Inr c)
    with mw have "fst (importData g hdr st imported Merge) = fst (updateStats hdr (st\<lparr>words := ws'\<rparr>))"
      by (simp add: importData_def split: prod.splits sum.splits)
    with mw show ?thesis by (simp add: Merge updateStats_words)
  qed
qed

text \<open>
  C1, as stated: the merge skips an imported word as soon as a word of the repository
  has the same english up to case. The repository holds apple/elma and the imported
  word is Apple/meyve: \<^verbatim>\<open>findDuplicate\<close> reports the stored word, and the merge
  inserts the imported one and counts it as merged.
\<close>

theorem merge_english_only_counterexample:
  "map_of (words state1) ''w1'' = Some (mk_word ''w1'' ''apple'' ''elma'' ''B1'') \<and>
   same_english ascii_engine (mk_word ''w1'' ''apple'' ''elma'' ''B1'')
     (mk_word ''w2'' ''Apple'' ''meyve'' ''B1'') \<and>
   findDuplicate ascii_engine (words state1) ''Apple'' ''meyve''
     = Inr (Some (mk_word ''w1'' ''apple'' ''elma'' ''B1'')) \<and>
   words (fst (importData ascii_engine True state1 file1 Merge)) =
     [(''w1'', mk_word ''w1'' ''apple'' ''elma'' ''B1''),
      (''w2'', mk_word ''w2'' ''Apple'' ''meyve'' ''B1'')] \<and>
   snd (importData ascii_engine True state1 file1 Merge) = Inr (Some (1, 0))"
  by code_simp

text \<open>
  C1, amended. When the english and turkish of all words, stored and imported, are
  strings, the merge loop returns the repository and the two counts that result from
  going through the imported words in their order, each word being skipped, and
  counted as skipped, exactly when some word of the repository at that moment, the
  words inserted earlier in the batch included, agrees with it up to case on english
  and on turkish, and being stored unchanged under its own id, and counted as merged,
  otherwise. The two counts add up to the number of imported words, and in a state
  that has its \<^verbatim>\<open>appStats\<close>, on a page that has the header counters, \<^verbatim>\<open>importData\<close>
  in merge mode ends with that repository and reports those counts.
\<close>

theorem merge_words_decision:
  assumes "\<forall>w\<in>set (values_of (words st)). has_text w"
    and "\<forall>w\<in>set (values_of (words file)). has_text w"
  shows "merge_words g (words st) (values_of (words file)) 0 0 =
           (case merge_described g (words st) (values_of (words file)) of
              (ws', m, s) \<Rightarrow> (ws', Inr (m, s))) \<and>
         (case merge_described g (words st) (values_of (words file)) of
            (ws', m, s) \<Rightarrow> m + s = length (values_of (words file))) \<and>
         (appStats st \<noteq> None \<longrightarrow>
            (case merge_described g (words st) (values_of (words file)) of
               (ws', m, s) \<Rightarrow>
                 \<exists>st'. importData g True st file Merge = (st', Inr (Some (m, s))) \<and>
                       words st' = ws')) \<and>
         (\<not> list_ex (\<lambda>w. same_text g w word) (values_of ws) \<longrightarrow>
            skip_or_insert g (ws, merged, skipped) word
              = (AList.update (id_w word) word ws, merged + 1, skipped) \<and>
            map_of (AList.update (id_w word) word ws) (id_w word) = Some word) \<and>
         (list_ex (\<lambda>w. same_text g w word) (values_of ws) \<longrightarrow>
            skip_or_insert g (ws, merged, skipped) word = (ws, merged, skipped + 1))"
proof (intro conjI impI)
  show loop: "merge_words g (words st) (values_of (words file)) 0 0 =
           (case merge_described g (words st) (values_of (words file)) of
              (ws', m, s) \<Rightarrow> (ws', Inr (m, s)))"
    unfolding merge_described_def using assms by (rule merge_words_foldl)
  show "case merge_described g (words st) (values_of (words file)) of
            (ws', m, s) \<Rightarrow> m + s = length (values_of (words file))"
    unfolding merge_described_def
    using foldl_counts [where g = g and ws = "words st" and merged = 0 and skipped = 0
        and imported = "values_of (words file)"] by simp
  {
    assume a: "appStats st \<noteq> None"
    obtain ws' m s where d: "merge_described g (words st) (values_of (words file)) = (ws', m, s)"
      by (cases "merge_described g (words st) (values_of (words file))")
    from loop d have mw: "merge_words g (words st) (values_of (words file)) 0 0 = (ws', Inr (m, s))"
      by simp
    from a have "appStats (st\<lparr>words := ws'\<rparr>) \<noteq> None" by simp
    from updateStats_returns [OF this] obtain st' where
      u: "updateStats True (st\<lparr>words := ws'\<rparr>) = (st', Inr ())" "words st' = ws'"
      by auto
    from mw u have "importData g True st file Merge = (st', Inr (Some (m, s)))"
      by (simp add: importData_def)
    with u(2) d show "case merge_described g (words st) (values_of (words file)) of
               (ws', m, s) \<Rightarrow>
                 \<exists>st'. importData g True st file Merge = (st', Inr (Some (m, s))) \<and>
                       words st' = ws'"
      by simp
  }
next
  assume "\<not> list_ex (\<lambda>w. same_text g w word) (values_of ws)"
  then show "skip_or_insert g (ws, merged, skipped) word
              = (AList.update (id_w word) word ws, merged + 1, skipped)"
    by (simp add: skip_or_insert_def)
next
  show "map_of (AList.update (id_w word) word ws) (id_w word) = Some word"
    by (simp add: update_conv')
next
  assume "list_ex (\<lambda>w. same_text g w word) (values_of ws)"
  then show "skip_or_insert g (ws, merged, skipped) word = (ws, merged, skipped + 1)"
    by (simp add: skip_or_insert_def)
qed

theorem merge_words_decision_witness:
  "list_all has_text (values_of (words state1)) \<and>
   list_all has_text (values_of (words file3)) \<and>
   appStats state1 \<noteq> None \<and>
   merge_described ascii_engine (words state1) (values_of (words file3)) =
     ([(''w1'', mk_word ''w1'' ''apple'' ''elma'' ''B1''),
       (''w3'', mk_word ''w3'' ''pear'' ''armut'' ''A1'')], 1, 2) \<and>
   merge_words ascii_engine (words state1) (values_of (words file3)) 0 0 =
     ([(''w1'', mk_word ''w1'' ''apple'' ''elma'' ''B1''),
       (''w3'', mk_word ''w3'' ''pear'' ''armut'' ''A1'')], Inr (1, 2)) \<and>
   (\<exists>st'. importData ascii_engine True state1 file3 Merge = (st', Inr (Some (1, 2))) \<and>
      words st' = [(''w1'', mk_word ''w1'' ''apple'' ''elma'' ''B1''),
                   (''w3'', mk_word ''w3'' ''pear'' ''armut'' ''A1'')]) \<and>
   list_ex (\<lambda>w. same_text ascii_engine w (mk_word ''w2'' ''Apple'' ''ELMA'' ''B1''))
     (values_of repo1) \<and>
   skip_or_insert ascii_engine (repo1, 0, 0) (mk_word ''w2'' ''Apple'' ''ELMA'' ''B1'')
     = (repo1, 0, 1) \<and>
   \<not> list_ex (\<lambda>w. same_text ascii_engine w (mk_word ''w3'' ''pear'' ''armut'' ''A1''))
     (values_of repo1) \<and>
   map_of (AList.update ''w3'' (mk_word ''w3'' ''pear'' ''armut'' ''A1'') repo1) ''w3''
     = Some (mk_word ''w3'' ''pear'' ''armut'' ''A1'')"
proof -
  let ?w2 = "mk_word ''w2'' ''Apple'' ''ELMA'' ''B1''"
  let ?w3 = "mk_word ''w3'' ''pear'' ''armut'' ''A1''"
  have h1: "list_all has_text (values_of (words state1))" by code_simp
  have h2: "list_all has_text (values_of (words file3))" by code_simp
  have h3: "appStats state1 \<noteq> None" by (simp add: state1_def)
  have d: "merge_described ascii_engine (words state1) (values_of (words file3)) =
     ([(''w1'', mk_word ''w1'' ''apple'' ''elma'' ''B1''), (''w3'', ?w3)], 1, 2)"
    by code_simp
  have e2: "list_ex (\<lambda>w. same_text ascii_engine w ?w2) (values_of repo1)" by code_simp
  have e3: "\<not> list_ex (\<lambda>w. same_text ascii_engine w ?w3) (values_of repo1)" by code_simp
  have i3: "id_w ?w3 = ''w3''" by (simp add: mk_word_def)
  note a = merge_words_decision
    [OF h1 [unfolded list_all_iff] h2 [unfolded list_all_iff],
      where g = ascii_engine and word = ?w2 and ws = repo1 and merged = 0 and skipped = 0]
  note b = merge_words_decision
    [OF h1 [unfolded list_all_iff] h2 [unfolded list_all_iff],
      where g = ascii_engine and word = ?w3 and ws = repo1 and merged = 0 and skipped = 0]
  from a d have loop: "merge_words ascii_engine (words state1) (values_of (words file3)) 0 0 =
     ([(''w1'', mk_word ''w1'' ''apple'' ''elma'' ''B1''), (''w3'', ?w3)], Inr (1, 2))"
    by simp
  from a d h3 have imp: "\<exists>st'. importData ascii_engine True state1 file3 Merge
       = (st', Inr (Some (1, 2))) \<and>
      words st' = [(''w1'', mk_word ''w1'' ''apple'' ''elma'' ''B1''), (''w3'', ?w3)]"
    by simp
  from a e2 have skip: "skip_or_insert ascii_engine (repo1, 0, 0) ?w2 = (repo1, 0, 1)"
    by simp
  from b e3 i3 have ins: "map_of (AList.update ''w3'' ?w3 repo1) ''w3'' = Some ?w3"
    by simp
  from h1 h2 h3 d loop imp e2 skip e3 ins show ?thesis by blast
qed

section \<open>Properties of the quiz engine\<close>

lemma mset_insert_at: "mset (insert_at n x xs) = add_mset x (mset xs)"
proof -
  have "mset (take n xs @ drop n xs) = mset xs" by (simp only: append_take_drop_id)
  then have "mset (take n xs) + mset (drop n xs) = mset xs" by (simp only: mset_append)
  then show ?thesis by (simp add: insert_at_def)
qed

lemma mset_shuffle: "mset (shuffle rs xs) = mset xs"
  by (induction rs xs rule: shuffle.induct) (simp_all add: mset_insert_at)

lemma set_shuffle: "set (shuffle rs xs) = set xs"
  using mset_shuffle [of rs xs] by (metis set_mset_mset)

lemma length_shuffle: "length (shuffle rs xs) = length xs"
  using mset_shuffle [of rs xs] by (metis size_mset)

text \<open>Every rearrangement of a list is the outcome of some draws.\<close>

lemma insert_at_split: "insert_at (length ps) x (ps @ ss) = ps @ x # ss"
  by (simp add: insert_at_def)

lemma shuffle_complete: "mset ys = mset xs \<Longrightarrow> \<exists>rs. length rs = length xs \<and> shuffle rs xs = ys"
proof (induction xs arbitrary: ys)
  case Nil
  then show ?case by simp
next
  case (Cons x xs)
  then have "x \<in> set ys" by (metis list.set_intros(1) mset_eq_setD)
  then obtain ps ss where ys: "ys = ps @ x # ss" by (meson split_list)
  with Cons.prems have "mset (ps @ ss) = mset xs" by simp
  from Cons.IH [OF this] obtain rs where rs: "length rs = length xs" "shuffle rs xs = ps @ ss"
    by blast
  have len: "length ps < Suc (length xs)"
    using \<open>mset (ps @ ss) = mset xs\<close> by (metis length_append size_mset le_add1 le_imp_less_Suc)
  have "shuffle (length ps # rs) (x # xs) = ys"
    using rs len by (simp add: ys insert_at_split)
  moreover have "length (length ps # rs) = length (x # xs)" using rs by simp
  ultimately show ?case by blast
qed

lemma set_take_shuffle: "set (take n (shuffle rs xs)) \<subseteq> set xs"
  using set_take_subset [of n "shuffle rs xs"] by (simp add: set_shuffle)

lemma allWords_member:
  "w \<in> set (allWords ws word) \<longleftrightarrow> w \<in> set (values_of ws) \<and> id_w w \<noteq> id_w word"
  by (simp add: allWords_def)

lemma sameLevel_member:
  "w \<in> set (sameLevel ws word) \<longleftrightarrow>
     w \<in> set (allWords ws word) \<and> strict_equals (level w) (level word)"
  by (simp add: sameLevel_def)

lemma generateDistractors_members:
  assumes "v \<in> set (generateDistractors rs ws word fld)"
  shows "\<exists>w\<in>set (values_of ws). id_w w \<noteq> id_w word \<and>
         v = js_or (get_field fld w) (english w) \<and>
         (3 \<le> length (sameLevel ws word) \<longrightarrow> strict_equals (level w) (level word))"
proof -
  let ?pool = "if 3 \<le> length (sameLevel ws word) then sameLevel ws word else allWords ws word"
  from assms obtain w where w: "w \<in> set (take 3 (shuffle rs ?pool))"
    and v: "v = js_or (get_field fld w) (english w)"
    unfolding generateDistractors_def Let_def by auto
  from w set_take_shuffle [of 3 rs ?pool] have pool: "w \<in> set ?pool" by blast
  have "w \<in> set (allWords ws word) \<and>
      (3 \<le> length (sameLevel ws word) \<longrightarrow> strict_equals (level w) (level word))"
  proof (cases "3 \<le> length (sameLevel ws word)")
    case True
    with pool have "w \<in> set (sameLevel ws word)" by simp
    then show ?thesis by (simp add: sameLevel_member)
  next
    case False
    with pool show ?thesis by simp
  qed
  with v show ?thesis by (auto simp add: allWords_member)
qed

lemma generateDistractors_length:
  "length (generateDistractors rs ws word fld) =
     (if 3 \<le> length (sameLevel ws word) then 3 else min 3 (length (allWords ws word)))"
  unfolding generateDistractors_def Let_def by (simp add: length_shuffle min.commute)

text \<open>
  C8, as stated: with at least three other words of the level of \<open>w\<close>, none of the
  three distractors equals the correct answer of \<open>w\<close>. Here ``big'' and ``large'' are
  two words of level B1 with the same Turkish translation, and ``big'' has three other
  B1 words, which are its whole pool: the translation of ``big'' is among the
  distractors of ``big'' in every order of the shuffle (two orders are shown).
\<close>

theorem generateDistractors_same_value_counterexample:
  "map_of repo2 ''w1'' = Some (mk_word ''w1'' ''big'' ''buyuk'' ''B1'') \<and>
   length (sameLevel repo2 (mk_word ''w1'' ''big'' ''buyuk'' ''B1'')) = 3 \<and>
   generateDistractors [] repo2 (mk_word ''w1'' ''big'' ''buyuk'' ''B1'') Turkish_field =
     [JStr ''buyuk'', JStr ''kucuk'', JStr ''kirmizi''] \<and>
   generateDistractors [2, 0, 1] repo2 (mk_word ''w1'' ''big'' ''buyuk'' ''B1'') Turkish_field =
     [JStr ''kucuk'', JStr ''kirmizi'', JStr ''buyuk''] \<and>
   get_field Turkish_field (mk_word ''w1'' ''big'' ''buyuk'' ''B1'') = JStr ''buyuk''"
  by code_simp

text \<open>
  C8, amended. Every distractor of \<^verbatim>\<open>generateDistractors(w, field)\<close> is the field value,
  or the english when that value is empty, of a stored word whose id differs from
  that of \<open>w\<close>, and of a word of the level of \<open>w\<close> whenever at least three other
  words have that level; then there are exactly three distractors, and otherwise as
  many as there are other words, up to three. The words are told apart by id only:
  the correct answer of \<open>w\<close> is absent from the distractors provided no other word
  carries it as its value.
\<close>

theorem generateDistractors_drawn_from_others:
  "(\<forall>v\<in>set (generateDistractors rs ws word fld).
      \<exists>w\<in>set (values_of ws). id_w w \<noteq> id_w word \<and>
         v = js_or (get_field fld w) (english w) \<and>
         (3 \<le> length (sameLevel ws word) \<longrightarrow> strict_equals (level w) (level word))) \<and>
   (3 \<le> length (sameLevel ws word) \<longrightarrow> length (generateDistractors rs ws word fld) = 3) \<and>
   (\<not> 3 \<le> length (sameLevel ws word) \<longrightarrow>
      length (generateDistractors rs ws word fld) = min 3 (length (allWords ws word))) \<and>
   ((\<forall>w\<in>set (values_of ws). id_w w \<noteq> id_w word \<longrightarrow>
        js_or (get_field fld w) (english w) \<noteq> get_field fld word)
      \<longrightarrow> get_field fld word \<notin> set (generateDistractors rs ws word fld))"
proof (intro conjI impI ballI)
  fix v
  assume "v \<in> set (generateDistractors rs ws word fld)"
  then show "\<exists>w\<in>set (values_of ws). id_w w \<noteq> id_w word \<and>
         v = js_or (get_field fld w) (english w) \<and>
         (3 \<le> length (sameLevel ws word) \<longrightarrow> strict_equals (level w) (level word))"
    by (rule generateDistractors_members)
next
  assume "3 \<le> length (sameLevel ws word)"
  then show "length (generateDistractors rs ws word fld) = 3"
    by (simp only: generateDistractors_length if_True)
next
  assume "\<not> 3 \<le> length (sameLevel ws word)"
  then show "length (generateDistractors rs ws word fld) = min 3 (length (allWords ws word))"
    by (simp only: generateDistractors_length if_False)
next
  assume other: "\<forall>w\<in>set (values_of ws). id_w w \<noteq> id_w word \<longrightarrow>
        js_or (get_field fld w) (english w) \<noteq> get_field fld word"
  show "get_field fld word \<notin> set (generateDistractors rs ws word fld)"
  proof
    assume "get_field fld word \<in> set (generateDistractors rs ws word fld)"
    from generateDistractors_members [OF this] obtain w where
      "w \<in> set (values_of ws)" "id_w w \<noteq> id_w word"
      "get_field fld word = js_or (get_field fld w) (english w)"
      by blast
    with other show False by metis
  qed
qed

theorem generateDistractors_drawn_from_others_witness:
  "3 \<le> length (sameLevel repo2 (mk_word ''w3'' ''small'' ''kucuk'' ''B1'')) \<and>
   list_all (\<lambda>w. js_or (get_field Turkish_field w) (english w)
                  \<noteq> get_field Turkish_field (mk_word ''w3'' ''small'' ''kucuk'' ''B1''))
     (allWords repo2 (mk_word ''w3'' ''small'' ''kucuk'' ''B1'')) \<and>
   generateDistractors [1, 0, 2] repo2 (mk_word ''w3'' ''small'' ''kucuk'' ''B1'') Turkish_field =
     [JStr ''buyuk'', JStr ''buyuk'', JStr ''kirmizi''] \<and>
   length (generateDistractors [1, 0, 2] repo2 (mk_word ''w3'' ''small'' ''kucuk'' ''B1'') Turkish_field) = 3 \<and>
   get_field Turkish_field (mk_word ''w3'' ''small'' ''kucuk'' ''B1'')
     \<notin> set (generateDistractors [1, 0, 2] repo2 (mk_word ''w3'' ''small'' ''kucuk'' ''B1'') Turkish_field) \<and>
   \<not> 3 \<le> length (sameLevel repo2 (mk_word ''w5'' ''blue'' ''mavi'' ''A1'')) \<and>
   length (generateDistractors [] repo2 (mk_word ''w5'' ''blue'' ''mavi'' ''A1'') English_field)
     = min 3 (length (allWords repo2 (mk_word ''w5'' ''blue'' ''mavi'' ''A1''))) \<and>
   generateDistractors [] repo2 (mk_word ''w5'' ''blue'' ''mavi'' ''A1'') English_field =
     [JStr ''big'', JStr ''large'', JStr ''small'']"
proof -
  let ?w3 = "mk_word ''w3'' ''small'' ''kucuk'' ''B1''"
  let ?w5 = "mk_word ''w5'' ''blue'' ''mavi'' ''A1''"
  have h1: "3 \<le> length (sameLevel repo2 ?w3)"
    by code_simp
  have h2': "list_all (\<lambda>w. js_or (get_field Turkish_field w) (english w)
                  \<noteq> get_field Turkish_field ?w3) (allWords repo2 ?w3)"
    by code_simp
  then have h2: "\<forall>w\<in>set (values_of repo2). id_w w \<noteq> id_w ?w3 \<longrightarrow>
      js_or (get_field Turkish_field w) (english w) \<noteq> get_field Turkish_field ?w3"
    by (simp add: list_all_iff allWords_member)
  have h3: "\<not> 3 \<le> length (sameLevel repo2 ?w5)"
    by code_simp
  have v3: "generateDistractors [1, 0, 2] repo2 ?w3 Turkish_field =
     [JStr ''buyuk'', JStr ''buyuk'', JStr ''kirmizi'']"
    by code_simp
  have v5: "generateDistractors [] repo2 ?w5 English_field =
     [JStr ''big'', JStr ''large'', JStr ''small'']"
    by code_simp
  note a = generateDistractors_drawn_from_others [of "[1, 0, 2]" repo2 ?w3 Turkish_field]
  note b = generateDistractors_drawn_from_others [of "[]" repo2 ?w5 English_field]
  from a h1 have l3: "length (generateDistractors [1, 0, 2] repo2 ?w3 Turkish_field) = 3"
    by blast
  from a h2 have n3: "get_field Turkish_field ?w3
     \<notin> set (generateDistractors [1, 0, 2] repo2 ?w3 Turkish_field)"
    by blast
  from b h3 have l5: "length (generateDistractors [] repo2 ?w5 English_field)
     = min 3 (length (allWords repo2 ?w5))"
    by blast
  from h1 h2' v3 l3 n3 h3 l5 v5 show ?thesis by blast
qed

lemma length_questions:
  "length (concat (map (\<lambda>word. map (\<lambda>type. (word, type)) qts) sel)) = length sel * length qts"
  by (induction sel) simp_all

lemma startQuiz_no_types:
  "startQuiz rs1 rs2 uuid now ws src randomize [] countField
     = Inr (Rejected ''Please select at least one question type.'')"
  by (simp add: startQuiz_def)

lemma startQuiz_few_words:
  assumes "source_words now ws src = Inr cands" and "questionTypes \<noteq> []" and "length cands < 5"
  shows "startQuiz rs1 rs2 uuid now ws src randomize questionTypes countField
     = Inr (Rejected ''You need at least 5 words to start a quiz.'')"
  using assms by (simp add: startQuiz_def)

lemma startQuiz_small_count:
  assumes "source_words now ws src = Inr cands" and "questionTypes \<noteq> []"
    and "5 \<le> length cands" and "\<not> is_custom src" and "n < 5"
  shows "startQuiz rs1 rs2 uuid now ws src randomize questionTypes (Some n)
     = Inr (Rejected ''Please select at least 5 words.'')"
  using assms by (simp add: startQuiz_def)

lemma startQuiz_custom:
  assumes "source_words now ws src = Inr cands" and "questionTypes \<noteq> []"
    and "5 \<le> length cands" and "is_custom src"
  shows "\<exists>q. startQuiz rs1 rs2 uuid now ws src randomize questionTypes countField = Inr (Started q) \<and>
           length (questions q) = length cands * length questionTypes"
  using assms by (simp add: startQuiz_def Let_def length_shuffle length_questions)

lemma startQuiz_count:
  assumes "source_words now ws src = Inr cands" and "questionTypes \<noteq> []"
    and "5 \<le> length cands" and "\<not> is_custom src" and "5 \<le> n"
  shows "\<exists>q. startQuiz rs1 rs2 uuid now ws src randomize questionTypes (Some n) = Inr (Started q) \<and>
           length (questions q) = nat (min n (int (length cands))) * length questionTypes"
  using assms by (simp add: startQuiz_def Let_def length_shuffle length_questions)

lemma startQuiz_nan:
  assumes "source_words now ws src = Inr cands" and "questionTypes \<noteq> []"
    and "5 \<le> length cands" and "\<not> is_custom src"
  shows "\<exists>q. startQuiz rs1 rs2 uuid now ws src randomize questionTypes None = Inr (Started q) \<and>
           length (questions q) = 0"
  using assms by (simp add: startQuiz_def Let_def length_shuffle length_questions)

lemma startQuiz_started:
  assumes "source_words now ws src = Inr cands" and "questionTypes \<noteq> []"
    and "5 \<le> length cands" and "is_custom src \<or> (\<forall>n. countField = Some n \<longrightarrow> 5 \<le> n)"
  shows "\<exists>q. startQuiz rs1 rs2 uuid now ws src randomize questionTypes countField = Inr (Started q)"
proof (cases "is_custom src")
  case True
  from startQuiz_custom [OF assms(1-3) True] show ?thesis by blast
next
  case False
  show ?thesis
  proof (cases countField)
    case None
    from startQuiz_nan [OF assms(1-3) False] show ?thesis unfolding None by blast
  next
    case (Some n)
    with assms(4) False have "5 \<le> n" by simp
    from startQuiz_count [OF assms(1-3) False this] show ?thesis unfolding Some by blast
  qed
qed

text \<open>
  C9, as stated: the minimum of five words applies to the non-custom sources only, so a
  custom selection of \<open>n\<close> words and \<open>k\<close> question types starts a quiz of
  \<open>n \<times> k\<close> questions. A custom selection of four stored words with one question type
  is rejected by the same check as every other source.
\<close>

theorem startQuiz_custom_four_counterexample:
  "source_words 0 repo2 (Custom [''w1'', ''w2'', ''w3'', ''w4'']) =
     Inr [mk_word ''w1'' ''big'' ''buyuk'' ''B1'', mk_word ''w2'' ''large'' ''buyuk'' ''B1'',
          mk_word ''w3'' ''small'' ''kucuk'' ''B1'', mk_word ''w4'' ''red'' ''kirmizi'' ''B1''] \<and>
   is_custom (Custom [''w1'', ''w2'', ''w3'', ''w4'']) \<and>
   startQuiz [] [] ''q1'' 0 repo2 (Custom [''w1'', ''w2'', ''w3'', ''w4'']) False [''direct''] None =
     Inr (Rejected ''You need at least 5 words to start a quiz.'')"
  by code_simp

text \<open>
  C9, amended. When the source resolves to the candidate words \<open>cands\<close>,
  \<^verbatim>\<open>startQuiz\<close> rejects (shows a message, creates no quiz) exactly when no question
  type is selected, or there are fewer than five candidates, whatever the source, or
  the source is not custom and the word count entered is below five. With a question
  type selected and fewer than five candidates the message is the one about needing
  five words, so source ``all'' over four words fails. A custom source resolving to
  \<open>n \<ge> 5\<close> words with \<open>k \<ge> 1\<close> question types starts a quiz of exactly \<open>n \<times> k\<close>
  questions.
\<close>

theorem startQuiz_outcome:
  assumes "source_words now ws src = Inr cands"
  shows "((\<exists>msg. startQuiz rs1 rs2 uuid now ws src randomize questionTypes countField
                  = Inr (Rejected msg)) \<longleftrightarrow>
            questionTypes = [] \<or> length cands < 5 \<or>
            (\<not> is_custom src \<and> (\<exists>n. countField = Some n \<and> n < 5))) \<and>
         (questionTypes \<noteq> [] \<and> length cands < 5 \<longrightarrow>
            startQuiz rs1 rs2 uuid now ws src randomize questionTypes countField
              = Inr (Rejected ''You need at least 5 words to start a quiz.'')) \<and>
         (questionTypes \<noteq> [] \<and> 5 \<le> length cands \<and> is_custom src \<longrightarrow>
            (\<exists>q. startQuiz rs1 rs2 uuid now ws src randomize questionTypes countField
                   = Inr (Started q) \<and>
                 length (questions q) = length cands * length questionTypes))"
proof (intro conjI impI iffI)
  assume "\<exists>msg. startQuiz rs1 rs2 uuid now ws src randomize questionTypes countField
                  = Inr (Rejected msg)"
  then obtain msg where rej:
    "startQuiz rs1 rs2 uuid now ws src randomize questionTypes countField = Inr (Rejected msg)"
    by blast
  show "questionTypes = [] \<or> length cands < 5 \<or>
            (\<not> is_custom src \<and> (\<exists>n. countField = Some n \<and> n < 5))"
  proof (rule ccontr)
    assume "\<not> (questionTypes = [] \<or> length cands < 5 \<or>
            (\<not> is_custom src \<and> (\<exists>n. countField = Some n \<and> n < 5)))"
    then have "questionTypes \<noteq> []" "5 \<le> length cands"
      "is_custom src \<or> (\<forall>n. countField = Some n \<longrightarrow> 5 \<le> n)"
      by (auto simp add: not_less)
    from startQuiz_started [OF assms this, of rs1 rs2 uuid randomize] rej show False by simp
  qed
next
  assume c: "questionTypes = [] \<or> length cands < 5 \<or>
            (\<not> is_custom src \<and> (\<exists>n. countField = Some n \<and> n < 5))"
  show "\<exists>msg. startQuiz rs1 rs2 uuid now ws src randomize questionTypes countField
                  = Inr (Rejected msg)"
  proof (cases "questionTypes = []")
    case True
    then show ?thesis by (simp add: startQuiz_no_types)
  next
    case types: False
    show ?thesis
    proof (cases "length cands < 5")
      case True
      from startQuiz_few_words [OF assms types True] show ?thesis by blast
    next
      case False
      with c types obtain n where n: "\<not> is_custom src" "countField = Some n" "n < 5"
        by blast
      from False have "5 \<le> length cands" by simp
      from startQuiz_small_count [OF assms types this n(1) n(3)] show ?thesis
        unfolding n(2) by blast
    qed
  qed
next
  assume "questionTypes \<noteq> [] \<and> length cands < 5"
  then show "startQuiz rs1 rs2 uuid now ws src randomize questionTypes countField
              = Inr (Rejected ''You need at least 5 words to start a quiz.'')"
    using startQuiz_few_words [OF assms] by blast
next
  assume "questionTypes \<noteq> [] \<and> 5 \<le> length cands \<and> is_custom src"
  then show "\<exists>q. startQuiz rs1 rs2 uuid now ws src randomize questionTypes countField
                   = Inr (Started q) \<and>
                 length (questions q) = length cands * length questionTypes"
    using startQuiz_custom [OF assms] by blast
qed

theorem startQuiz_outcome_witness:
  "source_words 0 repo2 (Custom [''w1'', ''w2'', ''w3'', ''w4'', ''w5'', ''w6'']) = Inr (values_of repo2) \<and>
   [''direct'', ''reverse''] \<noteq> [] \<and> 5 \<le> length (values_of repo2) \<and>
   is_custom (Custom [''w1'', ''w2'', ''w3'', ''w4'', ''w5'', ''w6'']) \<and>
   (\<exists>q. startQuiz [3, 1] [5, 2, 7] ''q1'' 0 repo2
          (Custom [''w1'', ''w2'', ''w3'', ''w4'', ''w5'', ''w6'']) True [''direct'', ''reverse''] None
            = Inr (Started q) \<and>
        length (questions q) = 6 * 2) \<and>
   source_words 0 repo4 All_words = Inr (values_of repo4) \<and> length (values_of repo4) < 5 \<and>
   startQuiz [] [] ''q2'' 0 repo4 All_words False [''direct''] (Some 10)
     = Inr (Rejected ''You need at least 5 words to start a quiz.'') \<and>
   source_words 0 repo2 All_words = Inr (values_of repo2) \<and> \<not> is_custom All_words \<and>
   (\<exists>msg. startQuiz [] [] ''q3'' 0 repo2 All_words False [''direct''] (Some 3) = Inr (Rejected msg))"
proof -
  let ?ids = "[''w1'', ''w2'', ''w3'', ''w4'', ''w5'', ''w6'']"
  have a1: "source_words 0 repo2 (Custom ?ids) = Inr (values_of repo2)" by code_simp
  have a2: "[''direct'', ''reverse''] \<noteq> []" by simp
  have a3: "5 \<le> length (values_of repo2)" by code_simp
  have a4: "is_custom (Custom ?ids)" by simp
  have a5: "length (values_of repo2) = 6" by code_simp
  have b1: "source_words 0 repo4 All_words = Inr (values_of repo4)" by simp
  have b2: "length (values_of repo4) < 5" by code_simp
  have c1: "source_words 0 repo2 All_words = Inr (values_of repo2)" by simp
  have c2: "\<not> is_custom All_words" by simp
  from startQuiz_outcome [OF a1, of "[3, 1]" "[5, 2, 7]" "''q1''" True "[''direct'', ''reverse'']" None]
    a2 a3 a4
  have a: "\<exists>q. startQuiz [3, 1] [5, 2, 7] ''q1'' 0 repo2 (Custom ?ids) True
      [''direct'', ''reverse''] None = Inr (Started q) \<and> length (questions q) = 6 * 2"
    unfolding a5 by simp
  from startQuiz_outcome [OF b1, of "[]" "[]" "''q2''" False "[''direct'']" "Some 10"] b2
  have b: "startQuiz [] [] ''q2'' 0 repo4 All_words False [''direct''] (Some 10)
     = Inr (Rejected ''You need at least 5 words to start a quiz.'')"
    by simp
  from startQuiz_outcome [OF c1, of "[]" "[]" "''q3''" False "[''direct'']" "Some 3"] c2
  have c: "\<exists>msg. startQuiz [] [] ''q3'' 0 repo2 All_words False [''direct''] (Some 3)
     = Inr (Rejected msg)"
    by simp
  from a1 a2 a3 a4 a b1 b2 b c1 c2 c show ?thesis by blast
qed

section \<open>Properties of the word repository\<close>

lemma js_trim_Inr: "is_string v \<Longrightarrow> \<exists>s. v = JStr s \<and> js_trim g v = Inr (JStr (trim g s))"
  by (cases v) simp_all

lemma js_trim_Inl: "\<not> is_string v \<Longrightarrow> js_trim g v = Inl TypeError"
  by (cases v) simp_all

lemma js_trim_or_empty_Inl: "\<not> string_or_absent v \<Longrightarrow> js_trim_or_empty g v = Inl TypeError"
  by (cases v) simp_all

lemma only_TypeError: "(e :: error) = TypeError"
  by (cases e) simp

lemma bind_Inl:
  "(case x of Inl e \<Rightarrow> Inl e | Inr v \<Rightarrow> Inl TypeError) = (Inl TypeError :: error + 'b)"
  by (cases x) (simp_all add: only_TypeError)

lemma new_word_raises:
  assumes "\<not> text_shaped wordData"
  shows "new_word g uuid now wordData = Inl TypeError"
proof -
  from assms consider
      "\<not> is_string (wordData ''english'')"
    | "\<not> string_or_absent (wordData ''turkish'')"
    | "\<not> string_or_absent (wordData ''pronunciation'')"
    | "\<not> string_or_absent (wordData ''turkishExplanation'')"
    | "\<not> string_or_absent (wordData ''englishExplanation'')"
    | "\<not> string_or_absent (wordData ''notes'')"
    unfolding text_shaped_def by blast
  then show ?thesis
  proof cases
    case 1
    then show ?thesis unfolding new_word_def by (simp add: js_trim_Inl)
  next
    case 2
    show ?thesis unfolding new_word_def js_trim_or_empty_Inl [OF 2]
      by (simp add: bind_Inl cong: sum.case_cong)
  next
    case 3
    show ?thesis unfolding new_word_def js_trim_or_empty_Inl [OF 3]
      by (simp add: bind_Inl cong: sum.case_cong)
  next
    case 4
    show ?thesis unfolding new_word_def js_trim_or_empty_Inl [OF 4]
      by (simp add: bind_Inl cong: sum.case_cong)
  next
    case 5
    show ?thesis unfolding new_word_def js_trim_or_empty_Inl [OF 5]
      by (simp add: bind_Inl cong: sum.case_cong)
  next
    case 6
    show ?thesis unfolding new_word_def js_trim_or_empty_Inl [OF 6]
      by (simp add: bind_Inl cong: sum.case_cong)
  qed
qed

lemma js_trim_or_empty_value:
  "string_or_absent v \<Longrightarrow>
   js_trim_or_empty g v = Inr (case v of JStr s \<Rightarrow> trim g s | _ \<Rightarrow> [])"
  by (cases v) simp_all

lemma new_word_returns:
  assumes "text_shaped wordData"
  shows "\<exists>en w. wordData ''english'' = JStr en \<and>
           new_word g uuid now wordData = Inr w \<and>
           id_w w = uuid \<and> english w = JStr (trim g en) \<and>
           turkish w = JStr (case wordData ''turkish'' of JStr s \<Rightarrow> trim g s | _ \<Rightarrow> []) \<and>
           synonyms w = js_or (wordData ''synonyms'') (JArr []) \<and>
           antonyms w = js_or (wordData ''antonyms'') (JArr []) \<and>
           examples w = js_or (wordData ''examples'') (JArr []) \<and>
           level w = js_or (wordData ''level'') (JStr ''C1'') \<and>
           categories w = js_or (wordData ''categories'') (JArr []) \<and>
           favorite w = js_or (wordData ''favorite'') (JBool False) \<and>
           stats w = new_stats now"
proof -
  from assms have e: "is_string (wordData ''english'')"
    and t: "string_or_absent (wordData ''turkish'')"
    and p: "string_or_absent (wordData ''pronunciation'')"
    and te: "string_or_absent (wordData ''turkishExplanation'')"
    and ee: "string_or_absent (wordData ''englishExplanation'')"
    and n: "string_or_absent (wordData ''notes'')"
    by (simp_all add: text_shaped_def)
  from js_trim_Inr [OF e] obtain en where en: "wordData ''english'' = JStr en"
    "js_trim g (wordData ''english'') = Inr (JStr (trim g en))" by blast
  show ?thesis
    unfolding new_word_def en(2) js_trim_or_empty_value [OF t] js_trim_or_empty_value [OF p]
      js_trim_or_empty_value [OF te] js_trim_or_empty_value [OF ee] js_trim_or_empty_value [OF n]
    by (simp add: en(1))
qed

lemma addWord_new_word_raises:
  "new_word g uuid now wordData = Inl e \<Longrightarrow>
   addWord g hdr uuid now st wordData = (st, Inl TypeError)"
  by (simp add: addWord_def only_TypeError [of e])

lemma addWord_without_appStats:
  "new_word g uuid now wordData = Inr w \<Longrightarrow> appStats st = None \<Longrightarrow>
   addWord g hdr uuid now st wordData
     = (st\<lparr>words := AList.update uuid w (words st)\<rparr>, Inl TypeError)"
  by (simp add: addWord_def)

lemma addWord_with_appStats:
  assumes "new_word g uuid now wordData = Inr w" and "appStats st = Some a"
  shows "\<exists>st'. addWord g hdr uuid now st wordData
             = (st', if hdr then Inr w else Inl TypeError) \<and>
           words st' = AList.update uuid w (words st) \<and>
           (\<exists>a'. appStats st' = Some a' \<and>
              totalAdded a' = int (length (values_of (words st'))) \<and>
              streak a' = streak a)"
  using assms by (simp add: addWord_def updateStats_def Let_def)

lemma addWord_words:
  "words (fst (addWord g hdr uuid now st wordData))
     = perform z g (AddWord uuid now wordData) (words st)"
proof (cases "new_word g uuid now wordData")
  case (Inl e)
  then show ?thesis by (simp add: addWord_new_word_raises)
next
  case (Inr w)
  show ?thesis
  proof (cases "appStats st")
    case None
    with Inr show ?thesis by (simp add: addWord_without_appStats)
  next
    case (Some a)
    from addWord_with_appStats [OF Inr Some, of hdr] Inr show ?thesis by auto
  qed
qed

text \<open>
  C10, as stated: \<^verbatim>\<open>addWord\<close> returns a word for every argument, also one without
  english or turkish or with a field of unexpected shape. It raises a
  \<^verbatim>\<open>TypeError\<close>, and leaves the state as it was, on the empty object, on an object
  with a turkish but no english, and on an object whose turkish is a number; and on an
  argument with an english it raises a \<^verbatim>\<open>TypeError\<close>, the word being stored, when the
  state has no \<^verbatim>\<open>appStats\<close>.
\<close>

theorem addWord_missing_english_counterexample:
  "addWord ascii_engine True ''u1'' 0 state1 empty_object = (state1, Inl TypeError) \<and>
   addWord ascii_engine True ''u1'' 0 state1 only_turkish = (state1, Inl TypeError) \<and>
   addWord ascii_engine True ''u1'' 0 state1 odd_turkish = (state1, Inl TypeError) \<and>
   snd (addWord ascii_engine True ''u1'' 0 state_without_appStats only_english)
     = Inl TypeError \<and>
   map_of (words (fst (addWord ascii_engine True ''u1'' 0 state_without_appStats only_english)))
     ''u1'' = Some (mk_word ''u1'' ''cat'' [] ''C1'')"
  by code_simp

text \<open>
  C10, amended. In a state that has its \<^verbatim>\<open>appStats\<close> (and whose words have their
  \<^verbatim>\<open>stats\<close>, as all words of the model do), on a page that has the header counters,
  \<^verbatim>\<open>addWord\<close> returns a word, stored under the new id, for every argument
  whose english is a string and whose turkish, pronunciation, two explanations and
  notes are strings or absent: english and turkish trimmed (an empty turkish when
  absent), the level C1, the arrays empty and the favorite flag false unless the
  argument gives a truthy value, and the stats those of a new word at the time of the
  call; the count of added words is then the number of words. It checks nothing else,
  so a blank english that the form validation refuses is stored. On an argument of
  that shape in a state without \<^verbatim>\<open>appStats\<close>, or on a page without the header
  counters, it stores the word and then raises a \<^verbatim>\<open>TypeError\<close>. On every other
  argument it raises a \<^verbatim>\<open>TypeError\<close> and leaves the state as it was.
\<close>

theorem addWord_outcome:
  "(text_shaped wordData \<and> appStats st \<noteq> None \<and> hdr \<longrightarrow>
      (\<exists>w st'. addWord g hdr uuid now st wordData = (st', Inr w) \<and>
           words st' = AList.update uuid w (words st) \<and>
           map_of (words st') uuid = Some w \<and>
           (\<exists>a. appStats st' = Some a \<and>
                 totalAdded a = int (length (values_of (words st')))) \<and>
           id_w w = uuid \<and>
           (\<exists>en. wordData ''english'' = JStr en \<and> english w = JStr (trim g en)) \<and>
           turkish w = JStr (case wordData ''turkish'' of JStr s \<Rightarrow> trim g s | _ \<Rightarrow> []) \<and>
           level w = (if truthy (wordData ''level'') then wordData ''level'' else JStr ''C1'') \<and>
           synonyms w = (if truthy (wordData ''synonyms'') then wordData ''synonyms'' else JArr []) \<and>
           antonyms w = (if truthy (wordData ''antonyms'') then wordData ''antonyms'' else JArr []) \<and>
           examples w = (if truthy (wordData ''examples'') then wordData ''examples'' else JArr []) \<and>
           categories w =
             (if truthy (wordData ''categories'') then wordData ''categories'' else JArr []) \<and>
           favorite w =
             (if truthy (wordData ''favorite'') then wordData ''favorite'' else JBool False) \<and>
           stats w = \<lparr>addedAt = now, timesTested = 0, correctCount = 0, wrongCount = 0,
                       lastTested = None, difficultyScore = 0, nextReviewDate = now,
                       learned = False\<rparr>)) \<and>
   (text_shaped wordData \<and> (appStats st = None \<or> \<not> hdr) \<longrightarrow>
      (\<exists>w st'. addWord g hdr uuid now st wordData = (st', Inl TypeError) \<and>
           new_word g uuid now wordData = Inr w \<and>
           words st' = AList.update uuid w (words st) \<and>
           map_of (words st') uuid = Some w)) \<and>
   (\<not> text_shaped wordData \<longrightarrow>
      addWord g hdr uuid now st wordData = (st, Inl TypeError))"
proof (intro conjI impI)
  assume a: "text_shaped wordData \<and> appStats st \<noteq> None \<and> hdr"
  from new_word_returns [of wordData g uuid now] a obtain en w where
    w: "wordData ''english'' = JStr en"
      "new_word g uuid now wordData = Inr w"
      "id_w w = uuid" "english w = JStr (trim g en)"
      "turkish w = JStr (case wordData ''turkish'' of JStr s \<Rightarrow> trim g s | _ \<Rightarrow> [])"
      "synonyms w = js_or (wordData ''synonyms'') (JArr [])"
      "antonyms w = js_or (wordData ''antonyms'') (JArr [])"
      "examples w = js_or (wordData ''examples'') (JArr [])"
      "level w = js_or (wordData ''level'') (JStr ''C1'')"
      "categories w = js_or (wordData ''categories'') (JArr [])"
      "favorite w = js_or (wordData ''favorite'') (JBool False)"
      "stats w = new_stats now"
    by blast
  from a obtain a0 where a0: "appStats st = Some a0" by auto
  from addWord_with_appStats [OF w(2) a0, of hdr] a obtain st' a' where
    s: "addWord g hdr uuid now st wordData = (st', Inr w)"
      "words st' = AList.update uuid w (words st)"
      "appStats st' = Some a'" "totalAdded a' = int (length (values_of (words st')))"
    by auto
  have m: "map_of (words st') uuid = Some w" by (simp add: s(2) update_conv')
  from w s m show "\<exists>w st'. addWord g hdr uuid now st wordData = (st', Inr w) \<and>
           words st' = AList.update uuid w (words st) \<and>
           map_of (words st') uuid = Some w \<and>
           (\<exists>a. appStats st' = Some a \<and>
                 totalAdded a = int (length (values_of (words st')))) \<and>
           id_w w = uuid \<and>
           (\<exists>en. wordData ''english'' = JStr en \<and> english w = JStr (trim g en)) \<and>
           turkish w = JStr (case wordData ''turkish'' of JStr s \<Rightarrow> trim g s | _ \<Rightarrow> []) \<and>
           level w = (if truthy (wordData ''level'') then wordData ''level'' else JStr ''C1'') \<and>
           synonyms w = (if truthy (wordData ''synonyms'') then wordData ''synonyms'' else JArr []) \<and>
           antonyms w = (if truthy (wordData ''antonyms'') then wordData ''antonyms'' else JArr []) \<and>
           examples w = (if truthy (wordData ''examples'') then wordData ''examples'' else JArr []) \<and>
           categories w =
             (if truthy (wordData ''categories'') then wordData ''categories'' else JArr []) \<and>
           favorite w =
             (if truthy (wordData ''favorite'') then wordData ''favorite'' else JBool False) \<and>
           stats w = \<lparr>addedAt = now, timesTested = 0, correctCount = 0, wrongCount = 0,
                       lastTested = None, difficultyScore = 0, nextReviewDate = now,
                       learned = False\<rparr>"
    unfolding js_or_def new_stats_def by (intro exI [of _ w] exI [of _ st']) simp
next
  assume a: "text_shaped wordData \<and> (appStats st = None \<or> \<not> hdr)"
  from new_word_returns [of wordData g uuid now] a obtain w where
    w: "new_word g uuid now wordData = Inr w" by blast
  show "\<exists>w st'. addWord g hdr uuid now st wordData = (st', Inl TypeError) \<and>
           new_word g uuid now wordData = Inr w \<and>
           words st' = AList.update uuid w (words st) \<and>
           map_of (words st') uuid = Some w"
  proof (cases "appStats st")
    case None
    from addWord_without_appStats [OF w None, of hdr] w show ?thesis
      by (intro exI [of _ w] exI [of _ "st\<lparr>words := AList.update uuid w (words st)\<rparr>"])
        (simp add: update_conv')
  next
    case (Some a0)
    with a have h: "\<not> hdr" by simp
    from addWord_with_appStats [OF w Some, of hdr] h obtain st' where
      s: "addWord g hdr uuid now st wordData = (st', Inl TypeError)"
        "words st' = AList.update uuid w (words st)"
      by auto
    from s w show ?thesis
      by (intro exI [of _ w] exI [of _ st']) (simp add: update_conv')
  qed
next
  assume "\<not> text_shaped wordData"
  from new_word_raises [OF this] show "addWord g hdr uuid now st wordData = (st, Inl TypeError)"
    by (rule addWord_new_word_raises)
qed

theorem addWord_outcome_witness:
  "text_shaped only_english \<and> appStats state1 \<noteq> None \<and>
   (\<exists>w st'. addWord ascii_engine True ''u1'' 7 state1 only_english = (st', Inr w) \<and>
      words st' = AList.update ''u1'' w repo1 \<and>
      (\<exists>a. appStats st' = Some a \<and> totalAdded a = 2) \<and>
      english w = JStr ''cat'' \<and> turkish w = JStr [] \<and> level w = JStr ''C1'' \<and>
      synonyms w = JArr [] \<and> categories w = JArr [] \<and> favorite w = JBool False \<and>
      timesTested (stats w) = 0 \<and> nextReviewDate (stats w) = 7 \<and> \<not> learned (stats w)) \<and>
   text_shaped blank_english \<and> \<not> validateWordForm ascii_engine ''  '' [] ''B1'' \<and>
   (\<exists>w st'. addWord ascii_engine True ''u2'' 7 state1 blank_english = (st', Inr w) \<and>
      words st' = AList.update ''u2'' w repo1 \<and> english w = JStr []) \<and>
   appStats state_without_appStats = None \<and>
   (\<exists>w st'. addWord ascii_engine True ''u1'' 7 state_without_appStats only_english
        = (st', Inl TypeError) \<and>
      words st' = AList.update ''u1'' w repo1 \<and> map_of (words st') ''u1'' = Some w) \<and>
   (\<exists>w st'. addWord ascii_engine False ''u1'' 7 state1 only_english = (st', Inl TypeError) \<and>
      words st' = AList.update ''u1'' w repo1 \<and> map_of (words st') ''u1'' = Some w) \<and>
   \<not> text_shaped empty_object \<and>
   addWord ascii_engine True ''u3'' 7 state1 empty_object = (state1, Inl TypeError)"
proof -
  have a1: "text_shaped only_english"
    by (simp add: text_shaped_def only_english_def empty_object_def)
  have a2: "only_english ''english'' = JStr ''  cat ''" "only_english ''turkish'' = JUndefined"
    "only_english ''level'' = JUndefined" "only_english ''synonyms'' = JUndefined"
    "only_english ''categories'' = JUndefined" "only_english ''favorite'' = JUndefined"
    by (simp_all add: only_english_def empty_object_def)
  have a3: "trim ascii_engine ''  cat '' = ''cat''" by code_simp
  have s1: "appStats state1 \<noteq> None" "words state1 = repo1" by (simp_all add: state1_def)
  have s0: "appStats state_without_appStats = None" "words state_without_appStats = repo1"
    by (simp_all add: state_without_appStats_def)
  have l2: "length (values_of (AList.update ''u1'' w repo1)) = 2" for w
    by (simp add: length_values_of repo1_def)
  have b1: "text_shaped blank_english"
    by (simp add: text_shaped_def blank_english_def empty_object_def)
  have b2: "blank_english ''english'' = JStr ''  ''"
    by (simp add: blank_english_def empty_object_def)
  have b3: "trim ascii_engine ''  '' = []" by code_simp
  have b4: "\<not> validateWordForm ascii_engine ''  '' [] ''B1''"
    by (simp add: validateWordForm_def b3)
  have c1: "\<not> text_shaped empty_object"
    by (simp add: text_shaped_def empty_object_def)
  from addWord_outcome [of only_english state1 True ascii_engine "''u1''" 7] a1 s1
  have a: "\<exists>w st'. addWord ascii_engine True ''u1'' 7 state1 only_english = (st', Inr w) \<and>
      words st' = AList.update ''u1'' w repo1 \<and>
      (\<exists>a. appStats st' = Some a \<and> totalAdded a = 2) \<and>
      english w = JStr ''cat'' \<and> turkish w = JStr [] \<and> level w = JStr ''C1'' \<and>
      synonyms w = JArr [] \<and> categories w = JArr [] \<and> favorite w = JBool False \<and>
      timesTested (stats w) = 0 \<and> nextReviewDate (stats w) = 7 \<and> \<not> learned (stats w)"
    by (auto simp add: a2 a3 l2)
  from addWord_outcome [of blank_english state1 True ascii_engine "''u2''" 7] b1 s1
  have b: "\<exists>w st'. addWord ascii_engine True ''u2'' 7 state1 blank_english = (st', Inr w) \<and>
      words st' = AList.update ''u2'' w repo1 \<and> english w = JStr []"
    by (auto simp add: b2 b3)
  from addWord_outcome [of only_english state_without_appStats True ascii_engine "''u1''" 7]
    a1 s0
  have n: "\<exists>w st'. addWord ascii_engine True ''u1'' 7 state_without_appStats only_english
        = (st', Inl TypeError) \<and>
      words st' = AList.update ''u1'' w repo1 \<and> map_of (words st') ''u1'' = Some w"
    by auto
  from addWord_outcome [of only_english state1 False ascii_engine "''u1''" 7] a1 s1
  have h: "\<exists>w st'. addWord ascii_engine False ''u1'' 7 state1 only_english
        = (st', Inl TypeError) \<and>
      words st' = AList.update ''u1'' w repo1 \<and> map_of (words st') ''u1'' = Some w"
    by auto
  from addWord_outcome [of empty_object state1 True ascii_engine "''u3''" 7] c1
  have c: "addWord ascii_engine True ''u3'' 7 state1 empty_object = (state1, Inl TypeError)"
    by simp
  from a1 s1(1) a b1 b4 b s0(1) n h c1 c show ?thesis by blast
qed

end
